theory Spec2Isabelle
  imports Complex_Main
begin

section \<open>Component data (types/components.ts)\<close>

datatype Direction = Up | Down | Left | Right

datatype GhostType = Blinky | Pinky | Inky | Clyde

datatype GhostMode = Chase | Scatter | Frightened | Eaten

datatype GameState = Ready | Playing | Paused | Won | Lost | Dying

text \<open>Entity ids are JavaScript numbers produced by a counter; they are modelled as
  unbounded integers, so that ids which were never handed out (negative ones, for
  instance) can still be passed to the registry.\<close>

type_synonym EntityId = int

text \<open>Pixel coordinates, speeds and times are JavaScript doubles; they are modelled as
  real numbers (rounding is not modelled). Grid coordinates, points, score, lives and
  level are integers.\<close>

record Position =
  gridX :: int
  gridY :: int
  pixelX :: real
  pixelY :: real

record Velocity =
  direction :: "Direction option"
  speed :: real
  nextDirection :: "Direction option"

record GhostAI =
  gtype :: GhostType
  mode :: GhostMode
  scatterTarget :: "int \<times> int"

record Edible =
  points :: int

record PowerUp =
  duration :: real

record Vulnerable =
  remainingTime :: real
  flashing :: bool

record Respawnable =
  spawnX :: int
  spawnY :: int
  delay :: real
  timer :: real

record Collider =
  width :: real
  height :: real

datatype ComponentType =
  PositionT | VelocityT | GhostAIT | EdibleT | PowerUpT | VulnerableT
  | RespawnableT | PlayerControlledT | ColliderT

text \<open>A stored component value. The TypeScript \<open>ComponentMap\<close> ties each component type
  to its value type; the typed getters below read a store through the matching
  constructor.\<close>

datatype Component =
  PositionC Position
  | VelocityC Velocity
  | GhostAIC GhostAI
  | EdibleC Edible
  | PowerUpC PowerUp
  | VulnerableC Vulnerable
  | RespawnableC Respawnable
  | PlayerControlledC
  | ColliderC Collider

section \<open>Entity manager (createEntityManager)\<close>

text \<open>\<open>aliveEntities\<close> is a JavaScript \<open>Set\<close>: it iterates in insertion order and holds
  no duplicates, so it is a list with \<open>set_add\<close> and \<open>set_delete\<close>. \<open>componentStores\<close> is a
  \<open>Map\<close> from component type to a \<open>Map\<close> from entity id to value; a store exists only once
  a component of its type has been added.\<close>

record EntityManager =
  nextId :: int
  aliveEntities :: "EntityId list"
  componentStores :: "ComponentType \<Rightarrow> (EntityId \<Rightarrow> Component option) option"

definition set_add :: "'a \<Rightarrow> 'a list \<Rightarrow> 'a list" where
  "set_add x xs = (if x \<in> set xs then xs else xs @ [x])"

definition set_delete :: "'a \<Rightarrow> 'a list \<Rightarrow> 'a list" where
  "set_delete x xs = removeAll x xs"

definition createEntityManager :: EntityManager where
  "createEntityManager =
     \<lparr>nextId = 0, aliveEntities = [], componentStores = (\<lambda>t. None)\<rparr>"

definition createEntity :: "EntityManager \<Rightarrow> EntityId \<times> EntityManager" where
  "createEntity m =
     (let eid = nextId m
      in (eid, m\<lparr>nextId := nextId m + 1, aliveEntities := set_add eid (aliveEntities m)\<rparr>))"

definition destroyEntity :: "EntityManager \<Rightarrow> EntityId \<Rightarrow> EntityManager" where
  "destroyEntity m eid =
     (if eid \<notin> set (aliveEntities m) then m
      else m\<lparr>componentStores :=
                (\<lambda>t. map_option (\<lambda>store. store(eid := None)) (componentStores m t)),
              aliveEntities := set_delete eid (aliveEntities m)\<rparr>)"

definition isAlive :: "EntityManager \<Rightarrow> EntityId \<Rightarrow> bool" where
  "isAlive m eid = (eid \<in> set (aliveEntities m))"

definition addComponent ::
  "EntityManager \<Rightarrow> EntityId \<Rightarrow> ComponentType \<Rightarrow> Component \<Rightarrow> EntityManager" where
  "addComponent m eid t c =
     (if eid \<notin> set (aliveEntities m) then m
      else (let store = (case componentStores m t of None \<Rightarrow> Map.empty | Some s \<Rightarrow> s)
            in m\<lparr>componentStores := (componentStores m)(t \<mapsto> store(eid \<mapsto> c))\<rparr>))"

definition getComponent ::
  "EntityManager \<Rightarrow> EntityId \<Rightarrow> ComponentType \<Rightarrow> Component option" where
  "getComponent m eid t =
     (case componentStores m t of None \<Rightarrow> None | Some store \<Rightarrow> store eid)"

definition removeComponent ::
  "EntityManager \<Rightarrow> EntityId \<Rightarrow> ComponentType \<Rightarrow> EntityManager" where
  "removeComponent m eid t =
     (case componentStores m t of
        None \<Rightarrow> m
      | Some store \<Rightarrow> m\<lparr>componentStores := (componentStores m)(t \<mapsto> store(eid := None))\<rparr>)"

definition hasComponent :: "EntityManager \<Rightarrow> EntityId \<Rightarrow> ComponentType \<Rightarrow> bool" where
  "hasComponent m eid t =
     (case componentStores m t of None \<Rightarrow> False | Some store \<Rightarrow> store eid \<noteq> None)"

text \<open>The inner loop of \<open>getEntitiesWithComponents\<close>: it leaves at the first missing
  component type.\<close>

fun hasAll :: "EntityManager \<Rightarrow> EntityId \<Rightarrow> ComponentType list \<Rightarrow> bool" where
  "hasAll m eid [] = True"
| "hasAll m eid (t # ts) = (if \<not> hasComponent m eid t then False else hasAll m eid ts)"

text \<open>The outer loop, over the live set in iteration order, pushing onto \<open>result\<close>.\<close>

fun queryLoop ::
  "EntityManager \<Rightarrow> ComponentType list \<Rightarrow> EntityId list \<Rightarrow> EntityId list \<Rightarrow> EntityId list" where
  "queryLoop m types [] result = result"
| "queryLoop m types (eid # ids) result =
     queryLoop m types ids (if hasAll m eid types then result @ [eid] else result)"

definition getEntitiesWithComponents ::
  "EntityManager \<Rightarrow> ComponentType list \<Rightarrow> EntityId list" where
  "getEntitiesWithComponents m types = queryLoop m types (aliveEntities m) []"

definition getAllEntities :: "EntityManager \<Rightarrow> EntityId list" where
  "getAllEntities m = aliveEntities m"

definition clear :: "EntityManager \<Rightarrow> EntityManager" where
  "clear m =
     m\<lparr>aliveEntities := [],
       componentStores := (\<lambda>t. map_option (\<lambda>store. Map.empty) (componentStores m t))\<rparr>"

section \<open>World (createWorld)\<close>

text \<open>The closure variables of \<open>createWorld\<close>; \<open>initialLives\<close> is the construction
  option. The kill streak starts at 0 and is only ever incremented or reset, so it is
  a natural number.\<close>

record World =
  entities :: EntityManager
  initialLives :: int
  gameState :: GameState
  score :: int
  lives :: int
  level :: int
  powerUpTime :: real
  deltaTime :: real
  ghostEatenStreak :: nat

definition DEFAULT_LIVES :: int where
  "DEFAULT_LIVES = 3"

definition createWorld :: "int option \<Rightarrow> World" where
  "createWorld opt =
     (let il = (case opt of None \<Rightarrow> DEFAULT_LIVES | Some n \<Rightarrow> n)
      in \<lparr>entities = createEntityManager, initialLives = il, gameState = Ready,
          score = 0, lives = il, level = 1, powerUpTime = 0, deltaTime = 0,
          ghostEatenStreak = 0\<rparr>)"

definition setGameState :: "World \<Rightarrow> GameState \<Rightarrow> World" where
  "setGameState w s = w\<lparr>gameState := s\<rparr>"

definition addScore :: "World \<Rightarrow> int \<Rightarrow> World" where
  "addScore w p = (if p > 0 then w\<lparr>score := score w + p\<rparr> else w)"

definition loseLife :: "World \<Rightarrow> World" where
  "loseLife w = (if lives w > 0 then w\<lparr>lives := lives w - 1\<rparr> else w)"



definition isPowerUpActive :: "World \<Rightarrow> bool" where
  "isPowerUpActive w = (powerUpTime w > 0)"

definition setDeltaTime :: "World \<Rightarrow> real \<Rightarrow> World" where
  "setDeltaTime w dt = w\<lparr>deltaTime := dt\<rparr>"

definition incrementGhostEatenStreak :: "World \<Rightarrow> World" where
  "incrementGhostEatenStreak w = w\<lparr>ghostEatenStreak := ghostEatenStreak w + 1\<rparr>"


definition reset :: "World \<Rightarrow> World" where
  "reset w =
     w\<lparr>entities := clear (entities w), gameState := Ready, score := 0,
       lives := initialLives w, level := 1, powerUpTime := 0, deltaTime := 0,
       ghostEatenStreak := 0\<rparr>"

section \<open>Call sequences on one registry instance\<close>

text \<open>A client of one \<open>World\<close> (and so of one \<open>EntityManager\<close> instance) can only call
  its operations one after the other. \<open>runCalls\<close> executes such a sequence and records,
  in order, the ids that \<open>createEntity\<close> returned.\<close>

datatype RegistryCall =
  CreateEntityCall
  | DestroyEntityCall EntityId
  | AddComponentCall EntityId ComponentType Component
  | RemoveComponentCall EntityId ComponentType
  | ClearCall
  | ResetCall

fun runCall :: "World \<times> EntityId list \<Rightarrow> RegistryCall \<Rightarrow> World \<times> EntityId list" where
  "runCall (w, ids) CreateEntityCall =
     (let (eid, m) = createEntity (entities w) in (w\<lparr>entities := m\<rparr>, ids @ [eid]))"
| "runCall (w, ids) (DestroyEntityCall eid) =
     (w\<lparr>entities := destroyEntity (entities w) eid\<rparr>, ids)"
| "runCall (w, ids) (AddComponentCall eid t c) =
     (w\<lparr>entities := addComponent (entities w) eid t c\<rparr>, ids)"
| "runCall (w, ids) (RemoveComponentCall eid t) =
     (w\<lparr>entities := removeComponent (entities w) eid t\<rparr>, ids)"
| "runCall (w, ids) ClearCall = (w\<lparr>entities := clear (entities w)\<rparr>, ids)"
| "runCall (w, ids) ResetCall = (reset w, ids)"

definition runCalls :: "World \<Rightarrow> RegistryCall list \<Rightarrow> World \<times> EntityId list" where
  "runCalls w calls = foldl runCall (w, []) calls"

section \<open>Typed access to the world's components\<close>

text \<open>\<open>world.entities.getComponent(id, 'position')\<close> and its siblings: the value stored
  under a component type, read as the type \<open>ComponentMap\<close> gives it; \<open>None\<close> is
  \<open>undefined\<close>.\<close>

definition getPosition :: "World \<Rightarrow> EntityId \<Rightarrow> Position option" where
  "getPosition w e =
     (case getComponent (entities w) e PositionT of Some (PositionC p) \<Rightarrow> Some p | _ \<Rightarrow> None)"

definition getVelocity :: "World \<Rightarrow> EntityId \<Rightarrow> Velocity option" where
  "getVelocity w e =
     (case getComponent (entities w) e VelocityT of Some (VelocityC v) \<Rightarrow> Some v | _ \<Rightarrow> None)"

definition getGhostAI :: "World \<Rightarrow> EntityId \<Rightarrow> GhostAI option" where
  "getGhostAI w e =
     (case getComponent (entities w) e GhostAIT of Some (GhostAIC a) \<Rightarrow> Some a | _ \<Rightarrow> None)"

definition getEdible :: "World \<Rightarrow> EntityId \<Rightarrow> Edible option" where
  "getEdible w e =
     (case getComponent (entities w) e EdibleT of Some (EdibleC a) \<Rightarrow> Some a | _ \<Rightarrow> None)"

definition getPowerUp :: "World \<Rightarrow> EntityId \<Rightarrow> PowerUp option" where
  "getPowerUp w e =
     (case getComponent (entities w) e PowerUpT of Some (PowerUpC a) \<Rightarrow> Some a | _ \<Rightarrow> None)"

definition getVulnerable :: "World \<Rightarrow> EntityId \<Rightarrow> Vulnerable option" where
  "getVulnerable w e =
     (case getComponent (entities w) e VulnerableT of
        Some (VulnerableC a) \<Rightarrow> Some a | _ \<Rightarrow> None)"

definition world_addComponent ::
  "World \<Rightarrow> EntityId \<Rightarrow> ComponentType \<Rightarrow> Component \<Rightarrow> World" where
  "world_addComponent w e t c = w\<lparr>entities := addComponent (entities w) e t c\<rparr>"

definition world_removeComponent :: "World \<Rightarrow> EntityId \<Rightarrow> ComponentType \<Rightarrow> World" where
  "world_removeComponent w e t = w\<lparr>entities := removeComponent (entities w) e t\<rparr>"

definition world_destroyEntity :: "World \<Rightarrow> EntityId \<Rightarrow> World" where
  "world_destroyEntity w e = w\<lparr>entities := destroyEntity (entities w) e\<rparr>"

section \<open>Selectors\<close>

definition getPlayerEntity :: "World \<Rightarrow> EntityId option" where
  "getPlayerEntity w =
     (case getEntitiesWithComponents (entities w) [PlayerControlledT] of
        [] \<Rightarrow> None
      | e # _ \<Rightarrow> Some e)"

definition getPlayerPosition :: "World \<Rightarrow> Position option" where
  "getPlayerPosition w =
     (case getPlayerEntity w of None \<Rightarrow> None | Some playerId \<Rightarrow> getPosition w playerId)"

definition getPlayerDirection :: "World \<Rightarrow> Direction option" where
  "getPlayerDirection w =
     (case getPlayerEntity w of
        None \<Rightarrow> None
      | Some playerId \<Rightarrow>
          (case getVelocity w playerId of None \<Rightarrow> None | Some v \<Rightarrow> direction v))"

definition getGhostEntities :: "World \<Rightarrow> EntityId list" where
  "getGhostEntities w = getEntitiesWithComponents (entities w) [GhostAIT]"

definition getGhostMode :: "World \<Rightarrow> EntityId \<Rightarrow> GhostMode option" where
  "getGhostMode w ghostId =
     (case getGhostAI w ghostId of None \<Rightarrow> None | Some a \<Rightarrow> Some (mode a))"

definition getGhostType :: "World \<Rightarrow> EntityId \<Rightarrow> GhostType option" where
  "getGhostType w ghostId =
     (case getGhostAI w ghostId of None \<Rightarrow> None | Some a \<Rightarrow> Some (gtype a))"

definition isGhostVulnerable :: "World \<Rightarrow> EntityId \<Rightarrow> bool" where
  "isGhostVulnerable w ghostId =
     (case getVulnerable w ghostId of None \<Rightarrow> False | Some v \<Rightarrow> remainingTime v > 0)"

definition getAllPellets :: "World \<Rightarrow> EntityId list" where
  "getAllPellets w = getEntitiesWithComponents (entities w) [EdibleT, PositionT]"

definition getRemainingPelletCount :: "World \<Rightarrow> nat" where
  "getRemainingPelletCount w = length (getAllPellets w)"

section \<open>Events and the state of one game\<close>

datatype GlobalMode = ChaseMode | ScatterMode

text \<open>The event catalogue of \<open>types/events.ts\<close>, each constructor carrying the fields of
  its payload in the order of the payload's declaration. A position payload is read with
  \<open>getComponent\<close> and so may be \<open>undefined\<close> at run time.\<close>

datatype Event =
  InputDirection Direction
  | InputPause
  | InputStart
  | InputRestart
  | GameStarted
  | GamePaused
  | GameResumed
  | GameOver int int
  | GameRestart
  | LevelComplete int int
  | PelletEaten EntityId "Position option" int
  | PowerPelletEaten EntityId "Position option" int real
  | GhostEaten EntityId GhostType int nat "Position option"
  | PlayerDied int
  | PlayerRespawned
  | PowerUpStarted real
  | PowerUpWarning real
  | PowerUpEnded
  | GhostModeChange GlobalMode

text \<open>The closure variables of \<open>createInputSystem\<close>, \<open>createGhostAISystem\<close>,
  \<open>createPowerUpSystem\<close> and (those the event handlers touch) \<open>createGameController\<close>.\<close>

record InputState =
  pendingDirection :: "Direction option"
  pendingStart :: bool
  pendingPause :: bool
  pendingRestart :: bool

record GhostAIState =
  currentGlobalMode :: GlobalMode
  modeJustChanged :: bool
  frightenedActive :: bool
  eatenGhosts :: "EntityId list"

record PowerUpState =
  wasActive :: bool
  warningDispatched :: bool

record ControllerState =
  needsReinit :: bool
  respawnTimer :: real

text \<open>One game as \<open>createGameController\<close> wires it: the world, the private state of the
  systems, and the event bus. \<open>dispatched\<close> lists every event handed to
  \<open>eventBus.dispatch\<close>, oldest first (what a listener that only observes would see).
  \<open>Math.random\<close> is an oracle: \<open>randoms\<close> is the stream of its outcomes and
  \<open>randomsUsed\<close> counts the calls made so far.\<close>

record Game =
  world :: World
  inputS :: InputState
  ghostAIS :: GhostAIState
  powerUpS :: PowerUpState
  controllerS :: ControllerState
  dispatched :: "Event list"
  randoms :: "nat \<Rightarrow> nat"
  randomsUsed :: nat

definition RESPAWN_DELAY :: real where
  "RESPAWN_DELAY = 1500"

text \<open>\<open>eventBus.dispatch\<close> calls the subscribers synchronously. The subscribers are those
  registered by the input system, the ghost AI system and the game controller; every
  event type has at most one of them.\<close>

definition dispatch :: "Event \<Rightarrow> Game \<Rightarrow> Game" where
  "dispatch ev g =
     (let g1 = g\<lparr>dispatched := dispatched g @ [ev]\<rparr>
      in case ev of
           InputDirection d \<Rightarrow> g1\<lparr>inputS := (inputS g1)\<lparr>pendingDirection := Some d\<rparr>\<rparr>
         | InputStart \<Rightarrow> g1\<lparr>inputS := (inputS g1)\<lparr>pendingStart := True\<rparr>\<rparr>
         | InputPause \<Rightarrow> g1\<lparr>inputS := (inputS g1)\<lparr>pendingPause := True\<rparr>\<rparr>
         | InputRestart \<Rightarrow> g1\<lparr>inputS := (inputS g1)\<lparr>pendingRestart := True\<rparr>\<rparr>
         | GhostModeChange m \<Rightarrow>
             g1\<lparr>ghostAIS := (ghostAIS g1)\<lparr>currentGlobalMode := m, modeJustChanged := True\<rparr>\<rparr>
         | PowerUpStarted t \<Rightarrow>
             g1\<lparr>ghostAIS := (ghostAIS g1)\<lparr>frightenedActive := True, modeJustChanged := True\<rparr>\<rparr>
         | PowerUpEnded \<Rightarrow>
             g1\<lparr>ghostAIS := (ghostAIS g1)\<lparr>frightenedActive := False, modeJustChanged := True\<rparr>\<rparr>
         | GhostEaten ghostId ty pts streak pos \<Rightarrow>
             g1\<lparr>ghostAIS :=
                  (ghostAIS g1)\<lparr>eatenGhosts := set_add ghostId (eatenGhosts (ghostAIS g1))\<rparr>\<rparr>
         | GameRestart \<Rightarrow> g1\<lparr>controllerS := (controllerS g1)\<lparr>needsReinit := True\<rparr>\<rparr>
         | PlayerDied livesRemaining \<Rightarrow>
             (if livesRemaining > 0
              then g1\<lparr>world := setGameState (world g1) Dying,
                      controllerS := (controllerS g1)\<lparr>respawnTimer := RESPAWN_DELAY\<rparr>\<rparr>
              else g1)
         | _ \<Rightarrow> g1)"

section \<open>Input system (createInputSystem)\<close>

definition inputUpdate :: "Game \<Rightarrow> Game" where
  "inputUpdate g =
     (if pendingRestart (inputS g)
      then dispatch GameRestart
             (g\<lparr>inputS := \<lparr>pendingDirection = None, pendingStart = False,
                             pendingPause = False, pendingRestart = False\<rparr>\<rparr>)
      else
        (let g1 = (if pendingStart (inputS g)
                   then g\<lparr>world := (if gameState (world g) = Ready
                                      then setGameState (world g) Playing else world g),
                           inputS := (inputS g)\<lparr>pendingStart := False\<rparr>\<rparr>
                   else g);
             g2 = (if pendingPause (inputS g1)
                   then g1\<lparr>world := (if gameState (world g1) = Playing
                                        then setGameState (world g1) Paused
                                        else if gameState (world g1) = Paused
                                        then setGameState (world g1) Playing
                                        else world g1),
                            inputS := (inputS g1)\<lparr>pendingPause := False\<rparr>\<rparr>
                   else g1)
         in (case pendingDirection (inputS g2) of
               None \<Rightarrow> g2
             | Some d \<Rightarrow>
                 g2\<lparr>world :=
                      (case getPlayerEntity (world g2) of
                         None \<Rightarrow> world g2
                       | Some playerId \<Rightarrow>
                           (case getVelocity (world g2) playerId of
                              None \<Rightarrow> world g2
                            | Some velocity \<Rightarrow>
                                world_addComponent (world g2) playerId VelocityT
                                  (VelocityC (velocity\<lparr>nextDirection := Some d\<rparr>)))),
                    inputS := (inputS g2)\<lparr>pendingDirection := None\<rparr>\<rparr>)))"

section \<open>Maze data (data/originalMaze.ts) and constants\<close>

datatype CellType = Wall | Path | Tunnel | GhostHouse | GhostDoor

definition TILE_SIZE :: real where
  "TILE_SIZE = 20"

definition MAZE_WIDTH :: int where
  "MAZE_WIDTH = 28"

definition GHOST_SPEED :: real where
  "GHOST_SPEED = 2 * (75 / 100)"

definition GHOST_FRIGHTENED_SPEED :: real where
  "GHOST_FRIGHTENED_SPEED = 2 * (5 / 10)"


text \<open>The array \<open>ORIGINAL_MAZE_NUMERIC\<close>, 31 rows of 28 cell codes. Each row of the array
  is written here as the string of its digits (\<open>MAZE_ROWS\<close>), and \<open>cellCode\<close> reads a digit
  back as the number.\<close>

definition MAZE_ROWS :: "string list" where
  "MAZE_ROWS =
     [''1111111111111111111111111111'',
      ''1000000000000110000000000001'',
      ''1011110111110110111110111101'',
      ''1311110111110110111110111131'',
      ''1011110111110110111110111101'',
      ''1000000000000000000000000001'',
      ''1011110110111111110110111101'',
      ''1011110110111111110110111101'',
      ''1000000110000110000110000001'',
      ''1111110111110110111110111111'',
      ''1111110111110110111110111111'',
      ''1111110110000000000110111111'',
      ''1111110110111551110110111111'',
      ''1111110110122222210110111111'',
      ''4444440000122222210000444444'',
      ''1111110110122222210110111111'',
      ''1111110110111111110110111111'',
      ''1111110110000000000110111111'',
      ''1111110110111111110110111111'',
      ''1000000000000110000000000001'',
      ''1011110111110110111110111101'',
      ''1011110111110110111110111101'',
      ''1300110000000440000000110031'',
      ''1110110110111111110110110111'',
      ''1110110110111111110110110111'',
      ''1000000110000110000110000001'',
      ''1011111111110110111111111101'',
      ''1011111111110110111111111101'',
      ''1000000000000000000000000001'',
      ''1111111111111111111111111111'',
      ''1111111111111111111111111111'']"

definition cellCode :: "char \<Rightarrow> nat" where
  "cellCode c = of_char c - 48"

definition ORIGINAL_MAZE_NUMERIC :: "nat list list" where
  "ORIGINAL_MAZE_NUMERIC = map (map cellCode) MAZE_ROWS"

definition convertCell :: "nat \<Rightarrow> nat \<Rightarrow> nat \<Rightarrow> CellType" where
  "convertCell v x y =
     (let isTunnelRow = (y = 14); isTunnelColumn = (x \<le> 5 \<or> x \<ge> 22)
      in if v = 1 then Wall
         else if v = 2 then GhostHouse
         else if v = 5 then GhostDoor
         else if v = 0 \<or> v = 3 then Path
         else if v = 4 then (if isTunnelRow \<and> isTunnelColumn then Tunnel else Path)
         else Path)"

definition ORIGINAL_MAZE :: "CellType list list" where
  "ORIGINAL_MAZE =
     map (\<lambda>(y, row). map (\<lambda>(x, cell). convertCell cell x y) (enumerate 0 row))
       (enumerate 0 ORIGINAL_MAZE_NUMERIC)"

section \<open>Ghost AI system (createGhostAISystem)\<close>

definition SCATTER_TARGETS :: "GhostType \<Rightarrow> int \<times> int" where
  "SCATTER_TARGETS ty =
     (case ty of Blinky \<Rightarrow> (25, 0) | Pinky \<Rightarrow> (2, 0) | Inky \<Rightarrow> (27, 30) | Clyde \<Rightarrow> (0, 30))"

definition GHOST_HOUSE_TARGET :: "int \<times> int" where
  "GHOST_HOUSE_TARGET = (13, 14)"

definition CLYDE_DISTANCE_THRESHOLD :: real where
  "CLYDE_DISTANCE_THRESHOLD = 8"

definition PINKY_AHEAD_TILES :: int where
  "PINKY_AHEAD_TILES = 4"

definition getOppositeDirection :: "Direction option \<Rightarrow> Direction option" where
  "getOppositeDirection dir =
     (case dir of
        None \<Rightarrow> None
      | Some Up \<Rightarrow> Some Down
      | Some Down \<Rightarrow> Some Up
      | Some Left \<Rightarrow> Some Right
      | Some Right \<Rightarrow> Some Left)"

definition distanceSquared :: "int \<Rightarrow> int \<Rightarrow> int \<Rightarrow> int \<Rightarrow> int" where
  "distanceSquared x1 y1 x2 y2 = (let dx = x2 - x1; dy = y2 - y1 in dx * dx + dy * dy)"

definition ALL_DIRECTIONS :: "Direction list" where
  "ALL_DIRECTIONS = [Up, Down, Left, Right]"

text \<open>\<open>ORIGINAL_MAZE\<close> is a constant with 31 rows of 28 cells, so the index reads that
  follow the bounds check are in range.\<close>

definition isWalkableForGhost :: "int \<Rightarrow> int \<Rightarrow> bool" where
  "isWalkableForGhost x y =
     (if y < 0 \<or> y \<ge> int (length ORIGINAL_MAZE) \<or> x < 0
         \<or> x \<ge> int (length (ORIGINAL_MAZE ! 0))
      then False
      else ORIGINAL_MAZE ! nat y ! nat x \<noteq> Wall)"

definition getNextGridPos :: "int \<Rightarrow> int \<Rightarrow> Direction \<Rightarrow> int \<times> int" where
  "getNextGridPos x y dir =
     (case dir of
        Up \<Rightarrow> (x, y - 1)
      | Down \<Rightarrow> (x, y + 1)
      | Left \<Rightarrow> (x - 1, y)
      | Right \<Rightarrow> (x + 1, y))"

text \<open>\<open>isAlignedToGrid\<close> has the same body in the ghost AI system (default threshold 2)
  and in the movement system (default threshold \<open>TILE_SIZE / 4\<close>); the threshold is
  passed explicitly.\<close>

definition isAlignedToGrid :: "real \<Rightarrow> real \<Rightarrow> real \<Rightarrow> bool" where
  "isAlignedToGrid px py threshold =
     (let cellCenterX = of_int \<lfloor>px / TILE_SIZE\<rfloor> * TILE_SIZE + TILE_SIZE / 2;
          cellCenterY = of_int \<lfloor>py / TILE_SIZE\<rfloor> * TILE_SIZE + TILE_SIZE / 2
      in \<bar>px - cellCenterX\<bar> \<le> threshold \<and> \<bar>py - cellCenterY\<bar> \<le> threshold)"

definition getAvailableDirections :: "int \<Rightarrow> int \<Rightarrow> Direction option \<Rightarrow> Direction list" where
  "getAvailableDirections x y currentDir =
     (let opposite = getOppositeDirection currentDir
      in filter (\<lambda>dir. Some dir \<noteq> opposite
                   \<and> isWalkableForGhost (fst (getNextGridPos x y dir)) (snd (getNextGridPos x y dir)))
           ALL_DIRECTIONS)"

text \<open>One round of the loop over \<open>priorityOrder\<close>; \<open>bestDist\<close> starts as \<open>Infinity\<close>, which
  is \<open>None\<close> here.\<close>

definition considerDirection ::
  "int \<Rightarrow> int \<Rightarrow> int \<Rightarrow> int \<Rightarrow> Direction list \<Rightarrow> Direction \<times> int option \<Rightarrow> Direction
     \<Rightarrow> Direction \<times> int option" where
  "considerDirection x y targetX targetY available best dir =
     (if dir \<notin> set available then best
      else
        (let next = getNextGridPos x y dir;
             dist = distanceSquared (fst next) (snd next) targetX targetY
         in (case snd best of
               None \<Rightarrow> (dir, Some dist)
             | Some bestDist \<Rightarrow> (if dist < bestDist then (dir, Some dist) else best))))"

definition chooseDirectionTowardTarget ::
  "int \<Rightarrow> int \<Rightarrow> int \<Rightarrow> int \<Rightarrow> Direction option \<Rightarrow> Direction option" where
  "chooseDirectionTowardTarget x y targetX targetY currentDir =
     (case getAvailableDirections x y currentDir of
        [] \<Rightarrow>
          (case getOppositeDirection currentDir of
             None \<Rightarrow> None
           | Some opposite \<Rightarrow>
               (if isWalkableForGhost (fst (getNextGridPos x y opposite))
                     (snd (getNextGridPos x y opposite))
                then Some opposite else None))
      | [d] \<Rightarrow> Some d
      | d # ds \<Rightarrow>
          Some (fst (foldl (considerDirection x y targetX targetY (d # ds)) (d, None)
                       [Up, Left, Down, Right])))"

text \<open>\<open>available[Math.floor(Math.random() * available.length)]\<close>: the index is some
  number below the length, taken from the oracle. \<open>Math.random\<close> is called only when a
  direction is available.\<close>

definition chooseRandomDirection ::
  "int \<Rightarrow> int \<Rightarrow> Direction option \<Rightarrow> Game \<Rightarrow> Direction option \<times> Game" where
  "chooseRandomDirection x y currentDir g =
     (case getAvailableDirections x y currentDir of
        [] \<Rightarrow> (getOppositeDirection currentDir, g)
      | d # ds \<Rightarrow>
          (Some ((d # ds) ! (randoms g (randomsUsed g) mod length (d # ds))),
           g\<lparr>randomsUsed := randomsUsed g + 1\<rparr>))"

fun getGhostByTypeInternalLoop :: "World \<Rightarrow> GhostType \<Rightarrow> EntityId list \<Rightarrow> EntityId option" where
  "getGhostByTypeInternalLoop w ty [] = None"
| "getGhostByTypeInternalLoop w ty (eid # ids) =
     (if map_option gtype (getGhostAI w eid) = Some ty then Some eid
      else getGhostByTypeInternalLoop w ty ids)"

definition getGhostByTypeInternal :: "World \<Rightarrow> GhostType \<Rightarrow> EntityId option" where
  "getGhostByTypeInternal w ty = getGhostByTypeInternalLoop w ty (getGhostEntities w)"

definition getGhostTarget :: "World \<Rightarrow> EntityId \<Rightarrow> (int \<times> int) option" where
  "getGhostTarget w ghostId =
     (case getGhostAI w ghostId of
        None \<Rightarrow> None
      | Some ghostAI \<Rightarrow>
          (let ghostType = gtype ghostAI; m = mode ghostAI
           in if m = Eaten then Some GHOST_HOUSE_TARGET
              else if m = Frightened \<or> isGhostVulnerable w ghostId then None
              else if m = Scatter then Some (SCATTER_TARGETS ghostType)
              else
                (case getPlayerEntity w of
                   None \<Rightarrow> Some (SCATTER_TARGETS ghostType)
                 | Some playerId \<Rightarrow>
                     (case getPlayerPosition w of
                        None \<Rightarrow> Some (SCATTER_TARGETS ghostType)
                      | Some playerPos \<Rightarrow>
                          (case ghostType of
                             Blinky \<Rightarrow> Some (gridX playerPos, gridY playerPos)
                           | Pinky \<Rightarrow>
                               (let playerDir = getPlayerDirection w;
                                    targetX = gridX playerPos;
                                    targetY = gridY playerPos
                                in if playerDir = Some Up
                                   then Some (targetX - PINKY_AHEAD_TILES, targetY - PINKY_AHEAD_TILES)
                                   else if playerDir = Some Down
                                   then Some (targetX, targetY + PINKY_AHEAD_TILES)
                                   else if playerDir = Some Left
                                   then Some (targetX - PINKY_AHEAD_TILES, targetY)
                                   else if playerDir = Some Right
                                   then Some (targetX + PINKY_AHEAD_TILES, targetY)
                                   else Some (targetX, targetY))
                           | Inky \<Rightarrow>
                               (case getGhostByTypeInternal w Blinky of
                                  None \<Rightarrow> Some (gridX playerPos, gridY playerPos)
                                | Some blinkyId \<Rightarrow>
                                    (case getPosition w blinkyId of
                                       None \<Rightarrow> Some (gridX playerPos, gridY playerPos)
                                     | Some blinkyPos \<Rightarrow>
                                         (let playerDir = getPlayerDirection w;
                                              intermediate =
                                                (if playerDir = Some Up
                                                 then (gridX playerPos, gridY playerPos - 2)
                                                 else if playerDir = Some Down
                                                 then (gridX playerPos, gridY playerPos + 2)
                                                 else if playerDir = Some Left
                                                 then (gridX playerPos - 2, gridY playerPos)
                                                 else if playerDir = Some Right
                                                 then (gridX playerPos + 2, gridY playerPos)
                                                 else (gridX playerPos, gridY playerPos));
                                              intermediateX = fst intermediate;
                                              intermediateY = snd intermediate;
                                              targetX =
                                                intermediateX + (intermediateX - gridX blinkyPos);
                                              targetY =
                                                intermediateY + (intermediateY - gridY blinkyPos)
                                          in Some (targetX, targetY))))
                           | Clyde \<Rightarrow>
                               (case getPosition w ghostId of
                                  None \<Rightarrow> Some (SCATTER_TARGETS Clyde)
                                | Some ghostPos \<Rightarrow>
                                    (let dist = sqrt (of_int (distanceSquared (gridX ghostPos)
                                                 (gridY ghostPos) (gridX playerPos) (gridY playerPos)))
                                     in if dist > CLYDE_DISTANCE_THRESHOLD
                                        then Some (gridX playerPos, gridY playerPos)
                                        else Some (SCATTER_TARGETS Clyde))))))))"

definition toGhostMode :: "GlobalMode \<Rightarrow> GhostMode" where
  "toGhostMode m = (case m of ChaseMode \<Rightarrow> Chase | ScatterMode \<Rightarrow> Scatter)"

text \<open>The mode resolution of \<open>updateGhost\<close>: the new mode, and the pending-eaten set after
  it (an eaten ghost that stands in the ghost house is taken out of the set).\<close>

definition resolveMode ::
  "GhostAIState \<Rightarrow> EntityId \<Rightarrow> Position \<Rightarrow> bool \<Rightarrow> GhostMode \<times> GhostAIState" where
  "resolveMode st ghostId position isVulnerable =
     (if ghostId \<in> set (eatenGhosts st)
      then (if gridX position \<ge> 13 \<and> gridX position \<le> 14 \<and> gridY position = 14
            then (toGhostMode (currentGlobalMode st),
                  st\<lparr>eatenGhosts := set_delete ghostId (eatenGhosts st)\<rparr>)
            else (Eaten, st))
      else if isVulnerable then (Frightened, st)
      else if frightenedActive st then (Frightened, st)
      else (toGhostMode (currentGlobalMode st), st))"

text \<open>The second half of \<open>updateGhost\<close>: the reversal on a mode change, the choice of
  a direction at a cell centre, and the speed.\<close>

definition steerGhost ::
  "Game \<Rightarrow> EntityId \<Rightarrow> Velocity \<Rightarrow> Position \<Rightarrow> GhostMode \<Rightarrow> real \<Rightarrow> Game" where
  "steerGhost g2 ghostId velocity position newMode newSpeed =
     (if modeJustChanged (ghostAIS g2) \<and> direction velocity \<noteq> None
      then g2\<lparr>world := world_addComponent (world g2) ghostId VelocityT
                          (VelocityC (velocity\<lparr>speed := newSpeed,
                             direction := getOppositeDirection (direction velocity)\<rparr>))\<rparr>
      else
        (let aligned = isAlignedToGrid (pixelX position) (pixelY position) 2;
             needsDirection = (direction velocity = None \<or> aligned)
         in if needsDirection
            then
              (let target = getGhostTarget (world g2) ghostId;
                   (newDirection, g3) =
                     (if newMode = Frightened
                      then chooseRandomDirection (gridX position) (gridY position)
                             (direction velocity) g2
                      else (case target of
                              Some t \<Rightarrow>
                                (chooseDirectionTowardTarget (gridX position)
                                   (gridY position) (fst t) (snd t) (direction velocity),
                                 g2)
                            | None \<Rightarrow>
                                chooseRandomDirection (gridX position) (gridY position)
                                  (direction velocity) g2))
               in if newDirection \<noteq> None \<and> newDirection \<noteq> direction velocity
                  then g3\<lparr>world := world_addComponent (world g3) ghostId VelocityT
                                      (VelocityC (velocity\<lparr>speed := newSpeed,
                                         direction := newDirection\<rparr>))\<rparr>
                  else if speed velocity \<noteq> newSpeed
                  then g3\<lparr>world := world_addComponent (world g3) ghostId VelocityT
                                      (VelocityC (velocity\<lparr>speed := newSpeed\<rparr>))\<rparr>
                  else g3)
            else if speed velocity \<noteq> newSpeed
            then g2\<lparr>world := world_addComponent (world g2) ghostId VelocityT
                                (VelocityC (velocity\<lparr>speed := newSpeed\<rparr>))\<rparr>
            else g2))"

text \<open>The first half: "Determine current mode" and "Update mode if changed".\<close>

definition applyMode :: "Game \<Rightarrow> EntityId \<Rightarrow> GhostAI \<Rightarrow> Position \<Rightarrow> bool \<Rightarrow> GhostMode \<times> Game" where
  "applyMode g ghostId ghostAI position isVulnerable =
     (let (newMode, st) = resolveMode (ghostAIS g) ghostId position isVulnerable;
          g1 = g\<lparr>ghostAIS := st\<rparr>
      in (newMode,
          if newMode \<noteq> mode ghostAI
          then g1\<lparr>world := world_addComponent (world g1) ghostId GhostAIT
                              (GhostAIC (ghostAI\<lparr>mode := newMode\<rparr>))\<rparr>
          else g1))"

definition updateGhost :: "Game \<Rightarrow> EntityId \<Rightarrow> Game" where
  "updateGhost g ghostId =
     (case (getGhostAI (world g) ghostId, getVelocity (world g) ghostId,
            getPosition (world g) ghostId) of
        (Some ghostAI, Some velocity, Some position) \<Rightarrow>
          (let isVulnerable = isGhostVulnerable (world g) ghostId;
               (newMode, g2) = applyMode g ghostId ghostAI position isVulnerable;
               newSpeed = (if isVulnerable then GHOST_FRIGHTENED_SPEED else GHOST_SPEED)
           in steerGhost g2 ghostId velocity position newMode newSpeed)
      | _ \<Rightarrow> g)"


section \<open>Movement system (createMovementSystem)\<close>

datatype error = TypeError

definition TUNNEL_ROW :: int where
  "TUNNEL_ROW = 14"

text \<open>The maze is any array of rows. The first two checks are the source's; on a ragged
  maze \<open>maze[gridY][gridX]\<close> can still be \<open>undefined\<close>, and reading its \<open>type\<close> throws.\<close>

definition isWalkable :: "CellType list list \<Rightarrow> int \<Rightarrow> int \<Rightarrow> bool \<Rightarrow> error + bool" where
  "isWalkable maze gx gy isPlayer =
     (if gy < 0 \<or> gy \<ge> int (length maze) then Inr False
      else if gx < 0 \<or> gx \<ge> int (length (maze ! 0)) then Inr (gy = TUNNEL_ROW)
      else if nat gx \<ge> length (maze ! nat gy) then Inl TypeError
      else
        (let cell = maze ! nat gy ! nat gx
         in if cell = Wall then Inr False
            else if isPlayer \<and> (cell = GhostHouse \<or> cell = GhostDoor) then Inr False
            else Inr True))"

definition isReverse :: "Direction option \<Rightarrow> Direction \<Rightarrow> bool" where
  "isReverse currentDirection nextDir =
     ((currentDirection = Some Left \<and> nextDir = Right)
      \<or> (currentDirection = Some Right \<and> nextDir = Left)
      \<or> (currentDirection = Some Up \<and> nextDir = Down)
      \<or> (currentDirection = Some Down \<and> nextDir = Up))"

text \<open>The state of one entity inside the loop body: \<open>pixelX\<close>, \<open>pixelY\<close>,
  \<open>currentDirection\<close>, \<open>nextDirection\<close>.\<close>

type_synonym MoveVars = "real \<times> real \<times> Direction option \<times> Direction option"

text \<open>"Check if we can apply the next direction".\<close>

definition applyNextDirection ::
  "CellType list list \<Rightarrow> bool \<Rightarrow> int \<Rightarrow> int \<Rightarrow> MoveVars \<Rightarrow> error + MoveVars" where
  "applyNextDirection maze isPlayer gx gy vars =
     (case vars of (px, py, currentDirection, nextDir) \<Rightarrow>
        (case nextDir of
           None \<Rightarrow> Inr vars
         | Some nd \<Rightarrow>
             (if isReverse currentDirection nd then Inr (px, py, Some nd, None)
              else if isAlignedToGrid px py (TILE_SIZE / 4)
              then
                (let nextPos = getNextGridPos gx gy nd
                 in case isWalkable maze (fst nextPos) (snd nextPos) isPlayer of
                      Inl e \<Rightarrow> Inl e
                    | Inr True \<Rightarrow>
                        Inr (of_int gx * TILE_SIZE + TILE_SIZE / 2,
                             of_int gy * TILE_SIZE + TILE_SIZE / 2, Some nd, None)
                    | Inr False \<Rightarrow> Inr vars)
              else Inr vars)))"

text \<open>The tentative position: one step of length \<open>speed\<close> in the direction of travel.\<close>

definition stepInDirection :: "Direction \<Rightarrow> real \<Rightarrow> real \<Rightarrow> real \<Rightarrow> real \<times> real" where
  "stepInDirection dir px py sp =
     (case dir of
        Up \<Rightarrow> (px, py - sp)
      | Down \<Rightarrow> (px, py + sp)
      | Left \<Rightarrow> (px - sp, py)
      | Right \<Rightarrow> (px + sp, py))"

text \<open>"Handle tunnel wrap-around", on the tentative \<open>newPixelX\<close>.\<close>

definition tunnelWrap :: "int \<Rightarrow> real \<Rightarrow> real" where
  "tunnelWrap gy newPixelX =
     (if gy = TUNNEL_ROW
      then (if newPixelX < 0 then of_int MAZE_WIDTH * TILE_SIZE + newPixelX
            else if newPixelX \<ge> of_int MAZE_WIDTH * TILE_SIZE
            then newPixelX - of_int MAZE_WIDTH * TILE_SIZE
            else newPixelX)
      else newPixelX)"

text \<open>"Check wall collision": whether the move is accepted and, if it is not, the
  position snapped to the edge of the current cell. The result is \<open>(canMove, pixelX,
  pixelY)\<close>.\<close>

definition wallCheck ::
  "CellType list list \<Rightarrow> bool \<Rightarrow> Direction \<Rightarrow> int \<Rightarrow> int \<Rightarrow> real \<Rightarrow> real \<Rightarrow> real \<Rightarrow> real
     \<Rightarrow> error + (bool \<times> real \<times> real)" where
  "wallCheck maze isPlayer dir gx gy px py newPixelX newPixelY =
     (case dir of
        Right \<Rightarrow>
          (let edgeX = \<lfloor>(newPixelX + TILE_SIZE / 2 - 1) / TILE_SIZE\<rfloor>
           in case isWalkable maze edgeX gy isPlayer of
                Inl e \<Rightarrow> Inl e
              | Inr True \<Rightarrow> Inr (True, px, py)
              | Inr False \<Rightarrow> Inr (False, (of_int gx + 1) * TILE_SIZE - TILE_SIZE / 2, py))
      | Left \<Rightarrow>
          (let edgeX = \<lfloor>(newPixelX - TILE_SIZE / 2) / TILE_SIZE\<rfloor>
           in case isWalkable maze edgeX gy isPlayer of
                Inl e \<Rightarrow> Inl e
              | Inr True \<Rightarrow> Inr (True, px, py)
              | Inr False \<Rightarrow> Inr (False, of_int gx * TILE_SIZE + TILE_SIZE / 2, py))
      | Down \<Rightarrow>
          (let edgeY = \<lfloor>(newPixelY + TILE_SIZE / 2 - 1) / TILE_SIZE\<rfloor>
           in case isWalkable maze gx edgeY isPlayer of
                Inl e \<Rightarrow> Inl e
              | Inr True \<Rightarrow> Inr (True, px, py)
              | Inr False \<Rightarrow> Inr (False, px, (of_int gy + 1) * TILE_SIZE - TILE_SIZE / 2))
      | Up \<Rightarrow>
          (let edgeY = \<lfloor>(newPixelY - TILE_SIZE / 2) / TILE_SIZE\<rfloor>
           in case isWalkable maze gx edgeY isPlayer of
                Inl e \<Rightarrow> Inl e
              | Inr True \<Rightarrow> Inr (True, px, py)
              | Inr False \<Rightarrow> Inr (False, px, of_int gy * TILE_SIZE + TILE_SIZE / 2)))"

text \<open>The body of the loop for one entity with its position and velocity; \<open>None\<close> is the
  \<open>continue\<close> of an entity with no direction at all.\<close>

definition moveEntity ::
  "CellType list list \<Rightarrow> real \<Rightarrow> bool \<Rightarrow> Position \<Rightarrow> Velocity
     \<Rightarrow> error + (Position \<times> Velocity) option" where
  "moveEntity maze dt isPlayer position velocity =
     (if direction velocity = None \<and> nextDirection velocity = None then Inr None
      else
        (let gx = \<lfloor>pixelX position / TILE_SIZE\<rfloor>;
             gy = \<lfloor>pixelY position / TILE_SIZE\<rfloor>
         in case applyNextDirection maze isPlayer gx gy
                   (pixelX position, pixelY position, direction velocity, nextDirection velocity) of
              Inl e \<Rightarrow> Inl e
            | Inr (px, py, currentDirection, nextDir) \<Rightarrow>
                (case currentDirection of
                   None \<Rightarrow>
                     Inr (Some (\<lparr>gridX = gx, gridY = gy, pixelX = px, pixelY = py\<rparr>,
                                velocity\<lparr>direction := currentDirection, nextDirection := nextDir\<rparr>))
                 | Some dir \<Rightarrow>
                     (let sp = speed velocity * (dt / (1667 / 100));
                          (newPixelX0, newPixelY) = stepInDirection dir px py sp;
                          newPixelX = tunnelWrap gy newPixelX0
                      in case wallCheck maze isPlayer dir gx gy px py newPixelX newPixelY of
                           Inl e \<Rightarrow> Inl e
                         | Inr (canMove, px', py') \<Rightarrow>
                             (if canMove
                              then Inr (Some
                                (\<lparr>gridX = max 0 (min (MAZE_WIDTH - 1) \<lfloor>newPixelX / TILE_SIZE\<rfloor>),
                                   gridY = max 0 (min (int (length maze) - 1)
                                             \<lfloor>newPixelY / TILE_SIZE\<rfloor>),
                                   pixelX = newPixelX, pixelY = newPixelY\<rparr>,
                                 velocity\<lparr>direction := currentDirection,
                                           nextDirection := nextDir\<rparr>))
                              else Inr (Some
                                (\<lparr>gridX = gx, gridY = gy, pixelX = px', pixelY = py'\<rparr>,
                                 velocity\<lparr>direction := currentDirection,
                                           nextDirection := nextDir\<rparr>)))))))"

text \<open>One round of the loop on the world. The entity came out of the query, so the
  source reads its position and velocity without a check (\<open>!\<close>); reading a field of
  \<open>undefined\<close> would throw.\<close>

definition moveOne :: "CellType list list \<Rightarrow> real \<Rightarrow> World \<Rightarrow> EntityId \<Rightarrow> error + World" where
  "moveOne maze dt w entityId =
     (case (getPosition w entityId, getVelocity w entityId) of
        (Some position, Some velocity) \<Rightarrow>
          (let isPlayer = hasComponent (entities w) entityId PlayerControlledT
           in case moveEntity maze dt isPlayer position velocity of
                Inl e \<Rightarrow> Inl e
              | Inr None \<Rightarrow> Inr w
              | Inr (Some (position', velocity')) \<Rightarrow>
                  Inr (world_addComponent
                         (world_addComponent w entityId PositionT (PositionC position'))
                         entityId VelocityT (VelocityC velocity')))
      | _ \<Rightarrow> Inl TypeError)"

fun movementLoop ::
  "CellType list list \<Rightarrow> real \<Rightarrow> EntityId list \<Rightarrow> World \<Rightarrow> error + World" where
  "movementLoop maze dt [] w = Inr w"
| "movementLoop maze dt (entityId # ids) w =
     (case moveOne maze dt w entityId of
        Inl e \<Rightarrow> Inl e
      | Inr w' \<Rightarrow> movementLoop maze dt ids w')"

definition movementUpdate :: "CellType list list \<Rightarrow> Game \<Rightarrow> error + Game" where
  "movementUpdate maze g =
     (if gameState (world g) \<noteq> Playing then Inr g
      else if deltaTime (world g) = 0 then Inr g
      else
        (case movementLoop maze (deltaTime (world g))
                (getEntitiesWithComponents (entities (world g)) [PositionT, VelocityT])
                (world g) of
           Inl e \<Rightarrow> Inl e
         | Inr w' \<Rightarrow> Inr (g\<lparr>world := w'\<rparr>)))"

text \<open>A maze is an array of rows of cells; the mazes the game is built with have rows of
  one length.\<close>

definition rectangular :: "CellType list list \<Rightarrow> bool" where
  "rectangular maze \<longleftrightarrow> (\<forall>r \<in> set maze. length r = length (maze ! 0))"

text \<open>The position component of an entity after one tick of the movement system.\<close>

definition positionAfterMovement ::
  "CellType list list \<Rightarrow> Game \<Rightarrow> EntityId \<Rightarrow> error + Position option" where
  "positionAfterMovement maze g e =
     (case movementUpdate maze g of
        Inl err \<Rightarrow> Inl err
      | Inr g' \<Rightarrow> Inr (getPosition (world g') e))"

section \<open>Eating system (createEatingSystem)\<close>





section \<open>Power-up system (createPowerUpSystem)\<close>

definition createVulnerable :: "real \<Rightarrow> bool \<Rightarrow> Vulnerable" where
  "createVulnerable t fl = \<lparr>remainingTime = t, flashing = fl\<rparr>"





section \<open>Collision system (createCollisionSystem)\<close>

definition COLLISION_THRESHOLD :: real where
  "COLLISION_THRESHOLD = TILE_SIZE * (8 / 10)"

definition GHOST_POINTS :: "int list" where
  "GHOST_POINTS = [200, 400, 800, 1600]"

definition areColliding :: "World \<Rightarrow> EntityId \<Rightarrow> EntityId \<Rightarrow> bool" where
  "areColliding w entity1 entity2 =
     (case (getPosition w entity1, getPosition w entity2) of
        (Some pos1, Some pos2) \<Rightarrow>
          (let dx = pixelX pos1 - pixelX pos2;
               dy = pixelY pos1 - pixelY pos2;
               distance = sqrt (dx * dx + dy * dy)
           in distance < COLLISION_THRESHOLD)
      | _ \<Rightarrow> False)"

text \<open>The first loop: the ghosts colliding with the player, eaten ghosts skipped.\<close>

fun findColliding :: "World \<Rightarrow> EntityId \<Rightarrow> EntityId list \<Rightarrow> EntityId list \<Rightarrow> EntityId list" where
  "findColliding w playerId [] collidingGhosts = collidingGhosts"
| "findColliding w playerId (ghostId # ids) collidingGhosts =
     (if getGhostMode w ghostId = Some Eaten then findColliding w playerId ids collidingGhosts
      else if areColliding w playerId ghostId
      then findColliding w playerId ids (collidingGhosts @ [ghostId])
      else findColliding w playerId ids collidingGhosts)"

text \<open>"Player eats ghost". The streak has just been incremented, so \<open>streak - 1\<close> is an
  index from 0.\<close>

definition eatGhost :: "Game \<Rightarrow> EntityId \<Rightarrow> Game" where
  "eatGhost g ghostId =
     (let w1 = incrementGhostEatenStreak (world g);
          streak = ghostEatenStreak w1;
          pts = GHOST_POINTS ! (min (streak - 1) (length GHOST_POINTS - 1));
          ghostType = (case getGhostType w1 ghostId of None \<Rightarrow> Blinky | Some ty \<Rightarrow> ty);
          w2 = addScore w1 pts;
          w3 = world_removeComponent w2 ghostId VulnerableT;
          w4 = (case getGhostAI w3 ghostId of
                  None \<Rightarrow> w3
                | Some ghostAI \<Rightarrow>
                    world_addComponent w3 ghostId GhostAIT (GhostAIC (ghostAI\<lparr>mode := Eaten\<rparr>)));
          ghostPos = getPosition w4 ghostId
      in dispatch (GhostEaten ghostId ghostType pts streak ghostPos) (g\<lparr>world := w4\<rparr>))"

text \<open>"Ghost kills player", up to the \<open>break\<close>.\<close>

definition killPlayer :: "Game \<Rightarrow> Game" where
  "killPlayer g =
     (let w1 = loseLife (world g);
          livesRemaining = lives w1;
          g1 = dispatch (PlayerDied livesRemaining) (g\<lparr>world := w1\<rparr>)
      in if livesRemaining = 0
         then (let g2 = g1\<lparr>world := setGameState (world g1) Lost\<rparr>
               in dispatch (GameOver (score (world g2)) (level (world g2))) g2)
         else g1)"

text \<open>The second loop; the death branch leaves the loop.\<close>

fun processCollisions :: "EntityId list \<Rightarrow> Game \<Rightarrow> Game" where
  "processCollisions [] g = g"
| "processCollisions (ghostId # ids) g =
     (if isGhostVulnerable (world g) ghostId
      then processCollisions ids (eatGhost g ghostId)
      else killPlayer g)"

definition collisionUpdate :: "Game \<Rightarrow> Game" where
  "collisionUpdate g =
     (if gameState (world g) \<noteq> Playing then g
      else
        (case getPlayerEntity (world g) of
           None \<Rightarrow> g
         | Some playerId \<Rightarrow>
             processCollisions
               (findColliding (world g) playerId (getGhostEntities (world g)) []) g))"

section \<open>The system pipeline of GameController.update\<close>


section \<open>Entity factories and the initial state of a game\<close>

definition createPosition :: "int \<Rightarrow> int \<Rightarrow> Position" where
  "createPosition gx gy =
     \<lparr>gridX = gx, gridY = gy, pixelX = of_int gx * TILE_SIZE + TILE_SIZE / 2,
      pixelY = of_int gy * TILE_SIZE + TILE_SIZE / 2\<rparr>"

definition createVelocity :: "Direction option \<Rightarrow> real \<Rightarrow> Velocity" where
  "createVelocity dir sp = \<lparr>direction = dir, speed = sp, nextDirection = None\<rparr>"

definition createGhostAI :: "GhostType \<Rightarrow> GhostAI" where
  "createGhostAI ty = \<lparr>gtype = ty, mode = Scatter, scatterTarget = SCATTER_TARGETS ty\<rparr>"

definition createCollider :: Collider where
  "createCollider = \<lparr>width = TILE_SIZE, height = TILE_SIZE\<rparr>"

definition createRespawnable :: "int \<Rightarrow> int \<Rightarrow> Respawnable" where
  "createRespawnable sx sy = \<lparr>spawnX = sx, spawnY = sy, delay = 3000, timer = 0\<rparr>"

definition createPacmanEntity :: "World \<Rightarrow> int \<Rightarrow> int \<Rightarrow> EntityId \<times> World" where
  "createPacmanEntity w gx gy =
     (let (eid, m) = createEntity (entities w);
          w0 = w\<lparr>entities := m\<rparr>;
          w1 = world_addComponent w0 eid PositionT (PositionC (createPosition gx gy));
          w2 = world_addComponent w1 eid VelocityT (VelocityC (createVelocity None 2));
          w3 = world_addComponent w2 eid PlayerControlledT PlayerControlledC;
          w4 = world_addComponent w3 eid ColliderT (ColliderC createCollider)
      in (eid, w4))"

definition createGhostEntity :: "World \<Rightarrow> GhostType \<Rightarrow> int \<Rightarrow> int \<Rightarrow> EntityId \<times> World" where
  "createGhostEntity w ty gx gy =
     (let (eid, m) = createEntity (entities w);
          w0 = w\<lparr>entities := m\<rparr>;
          w1 = world_addComponent w0 eid PositionT (PositionC (createPosition gx gy));
          w2 = world_addComponent w1 eid VelocityT (VelocityC (createVelocity None (18 / 10)));
          w3 = world_addComponent w2 eid GhostAIT (GhostAIC (createGhostAI ty));
          w4 = world_addComponent w3 eid ColliderT (ColliderC createCollider);
          w5 = world_addComponent w4 eid RespawnableT (RespawnableC (createRespawnable gx gy))
      in (eid, w5))"

definition createPelletEntity :: "World \<Rightarrow> int \<Rightarrow> int \<Rightarrow> EntityId \<times> World" where
  "createPelletEntity w gx gy =
     (let (eid, m) = createEntity (entities w);
          w0 = w\<lparr>entities := m\<rparr>;
          w1 = world_addComponent w0 eid PositionT (PositionC (createPosition gx gy));
          w2 = world_addComponent w1 eid EdibleT (EdibleC \<lparr>points = 10\<rparr>);
          w3 = world_addComponent w2 eid ColliderT (ColliderC createCollider)
      in (eid, w3))"

definition createPowerPelletEntity :: "World \<Rightarrow> int \<Rightarrow> int \<Rightarrow> EntityId \<times> World" where
  "createPowerPelletEntity w gx gy =
     (let (eid, m) = createEntity (entities w);
          w0 = w\<lparr>entities := m\<rparr>;
          w1 = world_addComponent w0 eid PositionT (PositionC (createPosition gx gy));
          w2 = world_addComponent w1 eid EdibleT (EdibleC \<lparr>points = 50\<rparr>);
          w3 = world_addComponent w2 eid PowerUpT (PowerUpC \<lparr>duration = 6000\<rparr>);
          w4 = world_addComponent w3 eid ColliderT (ColliderC createCollider)
      in (eid, w4))"

text \<open>The state \<open>createGameController\<close> starts from, before \<open>init\<close>: a fresh world and
  the initial values of the systems' closure variables. The random oracle is a
  parameter.\<close>

definition createGameController :: "(nat \<Rightarrow> nat) \<Rightarrow> Game" where
  "createGameController rnd =
     \<lparr>world = createWorld None,
      inputS = \<lparr>pendingDirection = None, pendingStart = False, pendingPause = False,
                pendingRestart = False\<rparr>,
      ghostAIS = \<lparr>currentGlobalMode = ScatterMode, modeJustChanged = False,
                  frightenedActive = False, eatenGhosts = []\<rparr>,
      powerUpS = \<lparr>wasActive = False, warningDispatched = False\<rparr>,
      controllerS = \<lparr>needsReinit = False, respawnTimer = 0\<rparr>,
      dispatched = [], randoms = rnd, randomsUsed = 0\<rparr>"

definition isInputEvent :: "Event \<Rightarrow> bool" where
  "isInputEvent ev =
     (case ev of
        InputDirection d \<Rightarrow> True
      | InputPause \<Rightarrow> True
      | InputStart \<Rightarrow> True
      | InputRestart \<Rightarrow> True
      | _ \<Rightarrow> False)"

definition dispatchAll :: "Game \<Rightarrow> Event list \<Rightarrow> Game" where
  "dispatchAll g evs = foldl (\<lambda>g' ev. dispatch ev g') g evs"

section \<open>Example states\<close>

text \<open>A game holding only the player, at its starting cell, before the game is
  started.\<close>

definition playerOnlyGame :: Game where
  "playerOnlyGame =
     (createGameController (\<lambda>n. 0))\<lparr>world := snd (createPacmanEntity (createWorld None) 14 22)\<rparr>"

text \<open>The player at (14, 23) moving up, and Pinky at (10, 10) in chase mode.\<close>

definition pinkyChaseWorld :: World where
  "pinkyChaseWorld =
     (let (p, w1) = createPacmanEntity (createWorld None) 14 23;
          (gh, w2) = createGhostEntity w1 Pinky 10 10;
          w3 = world_addComponent w2 p VelocityT (VelocityC (createVelocity (Some Up) 2))
      in world_addComponent w3 gh GhostAIT (GhostAIC ((createGhostAI Pinky)\<lparr>mode := Chase\<rparr>)))"

text \<open>The same world with Pinky vulnerable for 5000 ms, as the power-up system marks
  it; the ghost AI system has not run since, so Pinky's mode is still chase.\<close>

definition vulnerablePinkyWorld :: World where
  "vulnerablePinkyWorld =
     world_addComponent pinkyChaseWorld 1 VulnerableT (VulnerableC (createVulnerable 5000 False))"

text \<open>A running game in which Pinky has been eaten (it is in eaten mode and the ghost AI
  system has received the ghost-eaten event) and is now in cell \<open>(gx, gy)\<close>, moving
  left.\<close>

definition eatenGhostGame :: "int \<Rightarrow> int \<Rightarrow> Game" where
  "eatenGhostGame gx gy =
     (let (p, w1) = createPacmanEntity (createWorld None) 14 22;
          (gh, w2) = createGhostEntity w1 Pinky gx gy;
          w3 = world_addComponent w2 gh VelocityT
                 (VelocityC (createVelocity (Some Left) GHOST_SPEED));
          w4 = world_addComponent w3 gh GhostAIT
                 (GhostAIC ((createGhostAI Pinky)\<lparr>mode := Eaten\<rparr>));
          g0 = (createGameController (\<lambda>n. 0))\<lparr>world := setGameState w4 Playing\<rparr>
      in dispatch (GhostEaten gh Pinky 200 1 (Some (createPosition 20 20))) g0)"

section \<open>What a listener sees of the collision system\<close>

text \<open>The fixed doubling schedule of the spec for the \<open>k\<close>-th ghost of a streak (counted
  from 1): 200, 400, 800, 1600, and 1600 from then on.\<close>

definition streakPoints :: "nat \<Rightarrow> int" where
  "streakPoints k = 200 * 2 ^ (min k 4 - 1)"

text \<open>The ghost-eaten events for a run of ghosts eaten one after the other, the first of
  them at streak position \<open>s + 1\<close>; type and position are read from the world.\<close>

fun expectedGhostEaten :: "World \<Rightarrow> nat \<Rightarrow> EntityId list \<Rightarrow> Event list" where
  "expectedGhostEaten w s [] = []"
| "expectedGhostEaten w s (e # es) =
     GhostEaten e (case getGhostType w e of None \<Rightarrow> Blinky | Some ty \<Rightarrow> ty)
       (streakPoints (s + 1)) (s + 1) (getPosition w e)
     # expectedGhostEaten w (s + 1) es"

text \<open>The points carried by the ghost-eaten events of a list of events, in order.\<close>

fun ghostEatenPoints :: "Event list \<Rightarrow> int list" where
  "ghostEatenPoints [] = []"
| "ghostEatenPoints (GhostEaten e ty pts streak pos # evs) = pts # ghostEatenPoints evs"
| "ghostEatenPoints (ev # evs) = ghostEatenPoints evs"

text \<open>The player-died events of a list of events, in order.\<close>

fun playerDiedEvents :: "Event list \<Rightarrow> Event list" where
  "playerDiedEvents [] = []"
| "playerDiedEvents (PlayerDied n # evs) = PlayerDied n # playerDiedEvents evs"
| "playerDiedEvents (ev # evs) = playerDiedEvents evs"

text \<open>The set-up of the collision tests: the player at (10, 10), then one ghost per list
  entry at the same cell, vulnerable for 5000 ms where the entry says so, and the game
  playing. The world to start from is a parameter.\<close>

definition addGhostAt :: "World \<Rightarrow> GhostType \<times> bool \<Rightarrow> World" where
  "addGhostAt w tv =
     (let (gh, w1) = createGhostEntity w (fst tv) 10 10
      in if snd tv
         then world_addComponent w1 gh VulnerableT (VulnerableC (createVulnerable 5000 False))
         else w1)"

definition collisionGame :: "World \<Rightarrow> (GhostType \<times> bool) list \<Rightarrow> Game" where
  "collisionGame w0 ghosts =
     (createGameController (\<lambda>n. 0))
       \<lparr>world := setGameState (foldl addGhostAt (snd (createPacmanEntity w0 10 10)) ghosts)
                   Playing\<rparr>"




text \<open>The set-up of the tunnel tests of the movement system: the player created in cell
  \<open>(gx, 14)\<close>, given a direction, and placed at pixel \<open>(x, 290)\<close> of the tunnel row; the
  game playing, with frame time \<open>dt\<close>.\<close>

definition tunnelGame :: "int \<Rightarrow> real \<Rightarrow> Direction \<Rightarrow> real \<Rightarrow> Game" where
  "tunnelGame gx x dir dt =
     (let (p, w1) = createPacmanEntity (createWorld None) gx 14;
          w2 = world_addComponent w1 p VelocityT
                 (VelocityC ((createVelocity None 2)\<lparr>direction := Some dir\<rparr>));
          w3 = world_addComponent w2 p PositionT
                 (PositionC \<lparr>gridX = gx, gridY = 14, pixelX = x, pixelY = 14 * 20 + 10\<rparr>)
      in (createGameController (\<lambda>n. 0))\<lparr>world := setDeltaTime (setGameState w3 Playing) dt\<rparr>)"

section \<open>Entity registry: query, destroy, id allocation\<close>

lemma hasAll_iff: "hasAll m eid ts \<longleftrightarrow> (\<forall>t \<in> set ts. hasComponent m eid t)"
  by (induction ts) auto

lemma queryLoop_filter:
  "queryLoop m ts ids acc = acc @ filter (\<lambda>e. hasAll m e ts) ids"
  by (induction ids arbitrary: acc) auto

lemma getEntitiesWithComponents_filter:
  "getEntitiesWithComponents m ts = filter (\<lambda>e. hasAll m e ts) (aliveEntities m)"
  by (simp add: getEntitiesWithComponents_def queryLoop_filter)

text \<open>C6. For every entity \<open>E\<close> and every list \<open>S\<close> of component types, the result of
  \<open>getEntitiesWithComponents m S\<close> contains \<open>E\<close> if and only if \<open>E\<close> is alive and
  \<open>hasComponent m E t\<close> holds for every \<open>t\<close> in \<open>S\<close>. Only membership is stated; nothing is
  said about the order of the result.\<close>

theorem query_correct:
  "E \<in> set (getEntitiesWithComponents m S) \<longleftrightarrow>
     isAlive m E \<and> (\<forall>t \<in> set S. hasComponent m E t)"
  by (auto simp: getEntitiesWithComponents_filter isAlive_def hasAll_iff)

theorem query_correct_witness:
  "(let m = addComponent (snd (createEntity (snd (createEntity createEntityManager))))
              1 PositionT (PositionC \<lparr>gridX = 1, gridY = 1, pixelX = 30, pixelY = 30\<rparr>)
    in (1 \<in> set (getEntitiesWithComponents m [PositionT])) = True
       \<and> isAlive m 1 \<and> hasComponent m 1 PositionT
       \<and> (0 \<in> set (getEntitiesWithComponents m [PositionT])) = False
       \<and> isAlive m 0 \<and> hasComponent m 0 PositionT = False)"
  using query_correct [of 1 "addComponent (snd (createEntity (snd (createEntity createEntityManager))))
              1 PositionT (PositionC \<lparr>gridX = 1, gridY = 1, pixelX = 30, pixelY = 30\<rparr>)" "[PositionT]"]
    query_correct [of 0 "addComponent (snd (createEntity (snd (createEntity createEntityManager))))
              1 PositionT (PositionC \<lparr>gridX = 1, gridY = 1, pixelX = 30, pixelY = 30\<rparr>)" "[PositionT]"]
  by (simp add: Let_def createEntity_def createEntityManager_def addComponent_def
      set_add_def isAlive_def hasComponent_def)

lemma destroyEntity_not_alive: "\<not> isAlive m e \<Longrightarrow> destroyEntity m e = m"
  by (simp add: destroyEntity_def isAlive_def)

lemma destroyEntity_alive:
  "isAlive (destroyEntity m e) e' \<longleftrightarrow> isAlive m e' \<and> e' \<noteq> e"
  by (auto simp: destroyEntity_def isAlive_def set_delete_def)

lemma destroyEntity_getComponent:
  "isAlive m e \<Longrightarrow>
     getComponent (destroyEntity m e) e' t = (if e' = e then None else getComponent m e' t)"
  by (simp add: destroyEntity_def isAlive_def getComponent_def split: option.splits)

lemma destroyEntity_hasComponent:
  "isAlive m e \<Longrightarrow>
     hasComponent (destroyEntity m e) e' t = (e' \<noteq> e \<and> hasComponent m e' t)"
  by (simp add: destroyEntity_def isAlive_def hasComponent_def split: option.splits)

lemma nextId_destroyEntity: "nextId (destroyEntity m e) = nextId m"
  by (simp add: destroyEntity_def)

text \<open>C7. \<open>destroyEntity\<close> is a total function with no error result. On an id that is not
  alive (already destroyed or never created) it returns the registry unchanged: same
  live set, same component stores, same id counter. On a live id it removes the id from
  the live set and leaves no entry for it in any component store, while the counter and
  every other entity's liveness and components stay as they were. Destroying twice is
  the same as destroying once.\<close>

theorem destroyEntity_idempotent:
  "(\<not> isAlive m e \<longrightarrow> destroyEntity m e = m)
   \<and> (isAlive m e \<longrightarrow>
        \<not> isAlive (destroyEntity m e) e
        \<and> (\<forall>t. getComponent (destroyEntity m e) e t = None)
        \<and> (\<forall>t. \<not> hasComponent (destroyEntity m e) e t)
        \<and> nextId (destroyEntity m e) = nextId m
        \<and> (\<forall>e' t. e' \<noteq> e \<longrightarrow>
              isAlive (destroyEntity m e) e' = isAlive m e'
              \<and> getComponent (destroyEntity m e) e' t = getComponent m e' t))
   \<and> destroyEntity (destroyEntity m e) e = destroyEntity m e"
proof (intro conjI impI)
  show "destroyEntity (destroyEntity m e) e = destroyEntity m e"
    using destroyEntity_not_alive [of "destroyEntity m e" e]
    by (simp add: destroyEntity_alive)
qed (simp_all add: destroyEntity_not_alive destroyEntity_alive destroyEntity_getComponent
      destroyEntity_hasComponent nextId_destroyEntity)

theorem destroyEntity_idempotent_witness:
  "(let m = addComponent (snd (createEntity (snd (createEntity createEntityManager))))
              1 PositionT (PositionC \<lparr>gridX = 1, gridY = 1, pixelX = 30, pixelY = 30\<rparr>)
    in isAlive m 1 \<and> hasComponent m 1 PositionT
       \<and> isAlive (destroyEntity m 1) 1 = False
       \<and> getComponent (destroyEntity m 1) 1 PositionT = None
       \<and> isAlive (destroyEntity m 1) 0
       \<and> nextId (destroyEntity m 1) = 2
       \<and> isAlive m 7 = False \<and> destroyEntity m 7 = m
       \<and> destroyEntity (destroyEntity m 1) 1 = destroyEntity m 1)"
  using destroyEntity_idempotent [of "addComponent (snd (createEntity (snd (createEntity createEntityManager))))
              1 PositionT (PositionC \<lparr>gridX = 1, gridY = 1, pixelX = 30, pixelY = 30\<rparr>)" 1]
    destroyEntity_idempotent [of "addComponent (snd (createEntity (snd (createEntity createEntityManager))))
              1 PositionT (PositionC \<lparr>gridX = 1, gridY = 1, pixelX = 30, pixelY = 30\<rparr>)" 7]
  by (simp add: Let_def createEntity_def createEntityManager_def addComponent_def
      set_add_def isAlive_def hasComponent_def)

lemma nextId_addComponent: "nextId (addComponent m e t c) = nextId m"
  by (simp add: addComponent_def Let_def)

lemma nextId_removeComponent: "nextId (removeComponent m e t) = nextId m"
  by (simp add: removeComponent_def split: option.splits)

lemma nextId_clear: "nextId (clear m) = nextId m"
  by (simp add: clear_def)

lemma nextId_reset: "nextId (entities (reset w)) = nextId (entities w)"
  by (simp add: reset_def nextId_clear)

lemma runCall_invariant:
  assumes "\<forall>i \<in> set ids. i < nextId (entities w)" and "sorted_wrt (<) ids"
    and "runCall (w, ids) c = (w', ids')"
  shows "(\<forall>i \<in> set ids'. i < nextId (entities w')) \<and> sorted_wrt (<) ids'"
  using assms
  by (cases c)
    (fastforce simp: createEntity_def Let_def sorted_wrt_append nextId_destroyEntity
      nextId_addComponent nextId_removeComponent nextId_clear reset_def)+

lemma foldl_runCall_invariant:
  assumes "\<forall>i \<in> set ids. i < nextId (entities w)" and "sorted_wrt (<) ids"
  shows "sorted_wrt (<) (snd (foldl runCall (w, ids) cs))"
  using assms
proof (induction cs arbitrary: w ids)
  case Nil
  then show ?case by simp
next
  case (Cons c cs)
  obtain w' ids' where r: "runCall (w, ids) c = (w', ids')"
    by (cases "runCall (w, ids) c")
  from runCall_invariant [OF Cons.prems r]
  have "\<forall>i \<in> set ids'. i < nextId (entities w')" and "sorted_wrt (<) ids'"
    by auto
  from Cons.IH [OF this] show ?case
    by (simp add: r)
qed

text \<open>C9. Whatever sequence of registry calls (create, destroy, add and remove
  component, clear, and the world's reset) is run on one instance, the ids returned by
  \<open>createEntity\<close> are strictly increasing in the order they were returned: each is
  greater than all ids returned before it, so none is handed out twice. \<open>clear\<close> and
  \<open>reset\<close> leave the id counter as it was.\<close>

theorem createEntity_ids_strictly_increasing:
  "sorted_wrt (<) (snd (runCalls w calls))
   \<and> distinct (snd (runCalls w calls))
   \<and> nextId (clear m) = nextId m
   \<and> nextId (entities (reset w)) = nextId (entities w)
   \<and> fst (createEntity m) = nextId m
   \<and> nextId (snd (createEntity m)) = nextId m + 1"
proof -
  have s: "sorted_wrt (<) (snd (runCalls w calls))"
    unfolding runCalls_def using foldl_runCall_invariant [of "[]" w calls] by simp
  then have "distinct (snd (runCalls w calls))"
    by (simp add: strict_sorted_iff)
  with s show ?thesis
    by (simp add: nextId_clear nextId_reset createEntity_def Let_def)
qed

theorem createEntity_ids_strictly_increasing_witness:
  "snd (runCalls (createWorld None)
      [CreateEntityCall, CreateEntityCall, DestroyEntityCall 1, CreateEntityCall,
       ClearCall, CreateEntityCall, ResetCall, CreateEntityCall]) = [0, 1, 2, 3, 4]
   \<and> sorted_wrt (<) [0, 1, 2, 3, 4 :: int]"
  using createEntity_ids_strictly_increasing [of "createWorld None"
      "[CreateEntityCall, CreateEntityCall, DestroyEntityCall 1, CreateEntityCall,
        ClearCall, CreateEntityCall, ResetCall, CreateEntityCall]" createEntityManager]
  by (simp add: runCalls_def createWorld_def createEntityManager_def createEntity_def
      destroyEntity_def clear_def reset_def set_add_def set_delete_def Let_def)

section \<open>Reading components back after registry updates\<close>

lemma isAlive_addComponent: "isAlive (addComponent m e t c) e' = isAlive m e'"
  by (simp add: addComponent_def isAlive_def Let_def)

lemma aliveEntities_addComponent: "aliveEntities (addComponent m e t c) = aliveEntities m"
  by (simp add: addComponent_def Let_def)

lemma getComponent_addComponent:
  "getComponent (addComponent m e t c) e' t' =
     (if e' = e \<and> t' = t \<and> isAlive m e then Some c else getComponent m e' t')"
  by (simp add: addComponent_def getComponent_def isAlive_def Let_def split: option.splits)

lemma hasComponent_getComponent: "hasComponent m e t \<longleftrightarrow> getComponent m e t \<noteq> None"
  by (simp add: hasComponent_def getComponent_def split: option.splits)

lemma isAlive_removeComponent: "isAlive (removeComponent m e t) e' = isAlive m e'"
  by (simp add: removeComponent_def isAlive_def split: option.splits)

lemma aliveEntities_removeComponent: "aliveEntities (removeComponent m e t) = aliveEntities m"
  by (simp add: removeComponent_def split: option.splits)

lemma getComponent_removeComponent:
  "getComponent (removeComponent m e t) e' t' =
     (if e' = e \<and> t' = t then None else getComponent m e' t')"
  by (simp add: removeComponent_def getComponent_def split: option.splits)

lemma aliveEntities_destroyEntity:
  "aliveEntities (destroyEntity m e) = removeAll e (aliveEntities m)"
  by (simp add: destroyEntity_def set_delete_def)

lemma isAlive_destroyEntity: "isAlive (destroyEntity m e) e' = (e' \<noteq> e \<and> isAlive m e')"
  by (auto simp: isAlive_def aliveEntities_destroyEntity)

lemma getComponent_destroyEntity:
  "getComponent (destroyEntity m e) e' t =
     (if e' = e \<and> isAlive m e then None else getComponent m e' t)"
  by (simp add: destroyEntity_def isAlive_def getComponent_def split: option.splits)

lemma isAlive_createEntity:
  "isAlive (snd (createEntity m)) e = (e = nextId m \<or> isAlive m e)"
  by (auto simp: createEntity_def isAlive_def set_add_def Let_def)

lemma aliveEntities_createEntity:
  "aliveEntities (snd (createEntity m)) = set_add (nextId m) (aliveEntities m)"
  by (simp add: createEntity_def Let_def)

lemma getComponent_createEntity: "getComponent (snd (createEntity m)) e t = getComponent m e t"
  by (simp add: createEntity_def getComponent_def Let_def)

lemma fst_createEntity: "fst (createEntity m) = nextId m"
  by (simp add: createEntity_def Let_def)

lemma nextId_createEntity: "nextId (snd (createEntity m)) = nextId m + 1"
  by (simp add: createEntity_def Let_def)

lemma getComponent_createEntityManager: "getComponent createEntityManager e t = None"
  by (simp add: createEntityManager_def getComponent_def)

lemma aliveEntities_createEntityManager: "aliveEntities createEntityManager = []"
  by (simp add: createEntityManager_def)

lemma nextId_createEntityManager: "nextId createEntityManager = 0"
  by (simp add: createEntityManager_def)

lemmas registry_reads =
  isAlive_addComponent aliveEntities_addComponent getComponent_addComponent
  isAlive_removeComponent aliveEntities_removeComponent getComponent_removeComponent
  aliveEntities_destroyEntity isAlive_destroyEntity getComponent_destroyEntity
  isAlive_createEntity aliveEntities_createEntity getComponent_createEntity
  fst_createEntity nextId_createEntity nextId_addComponent nextId_removeComponent
  nextId_destroyEntity getComponent_createEntityManager aliveEntities_createEntityManager
  nextId_createEntityManager hasComponent_getComponent getEntitiesWithComponents_filter

lemmas world_ops =
  world_addComponent_def world_removeComponent_def world_destroyEntity_def

lemmas typed_reads =
  getPosition_def getVelocity_def getGhostAI_def getEdible_def getPowerUp_def
  getVulnerable_def

lemmas selectors =
  getPlayerEntity_def getPlayerPosition_def getPlayerDirection_def getGhostEntities_def
  getGhostMode_def getGhostType_def isGhostVulnerable_def getAllPellets_def
  getRemainingPelletCount_def

lemmas factories =
  createPacmanEntity_def createGhostEntity_def createPelletEntity_def
  createPowerPelletEntity_def createPosition_def createVelocity_def createGhostAI_def
  createCollider_def createRespawnable_def createWorld_def createGameController_def
  DEFAULT_LIVES_def TILE_SIZE_def split_beta

section \<open>Input system: restart\<close>

lemma dispatch_input_world: "isInputEvent ev \<Longrightarrow> world (dispatch ev g) = world g"
  by (cases ev) (simp_all add: dispatch_def isInputEvent_def Let_def)

lemma dispatched_dispatch: "dispatched (dispatch ev g) = dispatched g @ [ev]"
  by (cases ev) (simp_all add: dispatch_def Let_def)

lemma dispatch_input_pendingRestart:
  "isInputEvent ev \<Longrightarrow>
     pendingRestart (inputS (dispatch ev g)) = (ev = InputRestart \<or> pendingRestart (inputS g))"
  by (cases ev) (simp_all add: dispatch_def isInputEvent_def Let_def)

lemma dispatchAll_input:
  "\<forall>ev \<in> set evs. isInputEvent ev \<Longrightarrow>
     world (dispatchAll g evs) = world g
     \<and> dispatched (dispatchAll g evs) = dispatched g @ evs
     \<and> pendingRestart (inputS (dispatchAll g evs))
         = (InputRestart \<in> set evs \<or> pendingRestart (inputS g))"
  unfolding dispatchAll_def
proof (induction evs arbitrary: g)
  case Nil
  then show ?case by simp
next
  case (Cons ev evs)
  then show ?case
    by (auto simp: dispatch_input_world dispatched_dispatch dispatch_input_pendingRestart)
qed

lemma inputUpdate_restart:
  "pendingRestart (inputS g) \<Longrightarrow>
     world (inputUpdate g) = world g
     \<and> dispatched (inputUpdate g) = dispatched g @ [GameRestart]
     \<and> inputS (inputUpdate g) = \<lparr>pendingDirection = None, pendingStart = False,
                                   pendingPause = False, pendingRestart = False\<rparr>"
  by (simp add: inputUpdate_def dispatch_def)

text \<open>C10. Let any sequence of input events that contains a restart event reach the
  input system after its last update (direction, start and pause events may come with
  it, in any order). Then the next \<open>update\<close> leaves the world exactly as it was before
  those events (no change of game state, no change of the player's velocity), dispatches
  one event, \<open>game:restart\<close>, and clears all four pending inputs.\<close>

theorem restart_input_leaves_world_unchanged:
  assumes "InputRestart \<in> set evs" and "\<forall>ev \<in> set evs. isInputEvent ev"
  shows "world (inputUpdate (dispatchAll g evs)) = world g
     \<and> dispatched (inputUpdate (dispatchAll g evs)) = dispatched g @ evs @ [GameRestart]
     \<and> inputS (inputUpdate (dispatchAll g evs))
         = \<lparr>pendingDirection = None, pendingStart = False,
            pendingPause = False, pendingRestart = False\<rparr>"
  using assms dispatchAll_input [of evs g] inputUpdate_restart [of "dispatchAll g evs"]
  by simp

theorem restart_input_leaves_world_unchanged_witness:
  "world (inputUpdate (dispatchAll playerOnlyGame
       [InputDirection Left, InputStart, InputRestart, InputPause])) = world playerOnlyGame
   \<and> dispatched (inputUpdate (dispatchAll playerOnlyGame
       [InputDirection Left, InputStart, InputRestart, InputPause]))
       = [InputDirection Left, InputStart, InputRestart, InputPause, GameRestart]
   \<and> gameState (world playerOnlyGame) = Ready
   \<and> getVelocity (world playerOnlyGame) 0
       = Some \<lparr>direction = None, speed = 2, nextDirection = None\<rparr>
   \<and> gameState (world (inputUpdate (dispatchAll playerOnlyGame
       [InputDirection Left, InputStart]))) = Playing
   \<and> getVelocity (world (inputUpdate (dispatchAll playerOnlyGame
       [InputDirection Left, InputStart]))) 0
       = Some \<lparr>direction = None, speed = 2, nextDirection = Some Left\<rparr>"
  using restart_input_leaves_world_unchanged
    [of "[InputDirection Left, InputStart, InputRestart, InputPause]" playerOnlyGame]
  by (simp add: isInputEvent_def playerOnlyGame_def dispatchAll_def dispatch_def
      inputUpdate_def setGameState_def registry_reads world_ops typed_reads selectors
      factories Let_def isAlive_def set_add_def)

section \<open>Ghost AI: the ambusher's chase target\<close>



text \<open>C5 as the claim words it fails for a vulnerable Pinky: in chase mode, with the
  player at (14, 23) moving up, it has no target at all.\<close>

theorem vulnerable_pinky_has_no_target:
  "getGhostAI vulnerablePinkyWorld 1 = Some ((createGhostAI Pinky)\<lparr>mode := Chase\<rparr>)
   \<and> isGhostVulnerable vulnerablePinkyWorld 1 = True
   \<and> getPlayerEntity vulnerablePinkyWorld = Some 0
   \<and> getPosition vulnerablePinkyWorld 0 = Some (createPosition 14 23)
   \<and> getPlayerDirection vulnerablePinkyWorld = Some Up
   \<and> getGhostTarget vulnerablePinkyWorld 1 = None"
proof -
  have h: "getGhostAI vulnerablePinkyWorld 1 = Some ((createGhostAI Pinky)\<lparr>mode := Chase\<rparr>)"
    "isGhostVulnerable vulnerablePinkyWorld 1"
    "getPlayerEntity vulnerablePinkyWorld = Some 0"
    "getPosition vulnerablePinkyWorld 0 = Some (createPosition 14 23)"
    "getPlayerDirection vulnerablePinkyWorld = Some Up"
    by (simp_all add: vulnerablePinkyWorld_def pinkyChaseWorld_def createVulnerable_def
        registry_reads world_ops typed_reads selectors factories Let_def isAlive_def
        set_add_def)
  have "getGhostTarget vulnerablePinkyWorld 1 = None"
    by (simp add: getGhostTarget_def h createGhostAI_def)
  then show ?thesis
    using h by simp
qed
section \<open>Ghost AI: the pending-eaten set\<close>

lemma getGhostAI_velocity_update:
  "getGhostAI (world_addComponent w e VelocityT c) e' = getGhostAI w e'"
  by (simp add: getGhostAI_def world_ops registry_reads)

lemma chooseRandomDirection_frame:
  "world (snd (chooseRandomDirection x y d g)) = world g
   \<and> ghostAIS (snd (chooseRandomDirection x y d g)) = ghostAIS g"
  by (simp add: chooseRandomDirection_def split: list.splits)

lemma steerGhost_frame:
  "getGhostAI (world (steerGhost g2 ghostId v p nm ns)) e = getGhostAI (world g2) e
   \<and> ghostAIS (steerGhost g2 ghostId v p nm ns) = ghostAIS g2"
  by (simp add: steerGhost_def Let_def split_beta getGhostAI_velocity_update
      chooseRandomDirection_frame split: option.splits)

lemma updateGhost_applyMode:
  assumes "getGhostAI (world g) ghostId = Some ai"
    and "getVelocity (world g) ghostId = Some v"
    and "getPosition (world g) ghostId = Some pos"
  shows "getGhostAI (world (updateGhost g ghostId)) e
           = getGhostAI (world (snd (applyMode g ghostId ai pos
                 (isGhostVulnerable (world g) ghostId)))) e
     \<and> ghostAIS (updateGhost g ghostId)
           = ghostAIS (snd (applyMode g ghostId ai pos (isGhostVulnerable (world g) ghostId)))"
proof -
  have "updateGhost g ghostId =
          steerGhost (snd (applyMode g ghostId ai pos (isGhostVulnerable (world g) ghostId)))
            ghostId v pos
            (fst (applyMode g ghostId ai pos (isGhostVulnerable (world g) ghostId)))
            (if isGhostVulnerable (world g) ghostId then GHOST_FRIGHTENED_SPEED
             else GHOST_SPEED)"
    using assms by (simp add: updateGhost_def Let_def split_beta)
  then show ?thesis
    using steerGhost_frame by simp
qed

text \<open>C4, as the code has it. Let the ghost be in the pending-eaten set, alive, with its
  AI, velocity and position components. The test the code makes is whether the ghost's
  grid cell is one of the two ghost-house cells (13, 14) and (14, 14). While it is in
  neither, one \<open>updateGhost\<close> leaves it in the set, its mode is eaten and its target is
  the fixed ghost-house coordinate (13, 14). When it is in one of the two, it is taken
  out of the set and its mode is the current global mode.\<close>

theorem eaten_ghost_mode_resolution:
  assumes "ghostId \<in> set (eatenGhosts (ghostAIS g))"
    and "isAlive (entities (world g)) ghostId"
    and "getGhostAI (world g) ghostId = Some ai"
    and "getVelocity (world g) ghostId = Some v"
    and "getPosition (world g) ghostId = Some pos"
  shows "(\<not> (13 \<le> gridX pos \<and> gridX pos \<le> 14 \<and> gridY pos = 14) \<longrightarrow>
            getGhostMode (world (updateGhost g ghostId)) ghostId = Some Eaten
            \<and> ghostId \<in> set (eatenGhosts (ghostAIS (updateGhost g ghostId)))
            \<and> getGhostTarget (world (updateGhost g ghostId)) ghostId = Some GHOST_HOUSE_TARGET)
     \<and> (13 \<le> gridX pos \<and> gridX pos \<le> 14 \<and> gridY pos = 14 \<longrightarrow>
            getGhostMode (world (updateGhost g ghostId)) ghostId
              = Some (toGhostMode (currentGlobalMode (ghostAIS g)))
            \<and> ghostId \<notin> set (eatenGhosts (ghostAIS (updateGhost g ghostId))))"
proof -
  let ?r = "applyMode g ghostId ai pos (isGhostVulnerable (world g) ghostId)"
  note u = updateGhost_applyMode [OF assms(3,4,5)]
  have a1: "\<not> (13 \<le> gridX pos \<and> gridX pos \<le> 14 \<and> gridY pos = 14) \<Longrightarrow>
        getGhostAI (world (snd ?r)) ghostId = Some (ai\<lparr>mode := Eaten\<rparr>)
        \<and> eatenGhosts (ghostAIS (snd ?r)) = eatenGhosts (ghostAIS g)"
    using assms
    by (auto simp: applyMode_def resolveMode_def Let_def split_beta
        getGhostAI_def world_ops registry_reads)
  have a2: "13 \<le> gridX pos \<and> gridX pos \<le> 14 \<and> gridY pos = 14 \<Longrightarrow>
        getGhostAI (world (snd ?r)) ghostId
          = Some (ai\<lparr>mode := toGhostMode (currentGlobalMode (ghostAIS g))\<rparr>)
        \<and> eatenGhosts (ghostAIS (snd ?r)) = set_delete ghostId (eatenGhosts (ghostAIS g))"
    using assms
    by (auto simp: applyMode_def resolveMode_def Let_def split_beta
        getGhostAI_def world_ops registry_reads)
  show ?thesis
    using a1 a2 assms(1)
    by (auto simp: u getGhostMode_def getGhostTarget_def set_delete_def Let_def)
qed

lemma eatenGhostGame_reads:
  "1 \<in> set (eatenGhosts (ghostAIS (eatenGhostGame gx gy)))"
  "isAlive (entities (world (eatenGhostGame gx gy))) 1"
  "getGhostAI (world (eatenGhostGame gx gy)) 1 = Some ((createGhostAI Pinky)\<lparr>mode := Eaten\<rparr>)"
  "getVelocity (world (eatenGhostGame gx gy)) 1 = Some (createVelocity (Some Left) GHOST_SPEED)"
  "getPosition (world (eatenGhostGame gx gy)) 1 = Some (createPosition gx gy)"
  "currentGlobalMode (ghostAIS (eatenGhostGame gx gy)) = ScatterMode"
  by (simp_all add: eatenGhostGame_def dispatch_def setGameState_def registry_reads world_ops
      typed_reads factories Let_def isAlive_def set_add_def)

theorem eaten_ghost_mode_resolution_witness:
  "getPosition (world (eatenGhostGame 20 20)) 1 = Some (createPosition 20 20)
   \<and> getGhostMode (world (updateGhost (eatenGhostGame 20 20) 1)) 1 = Some Eaten
   \<and> 1 \<in> set (eatenGhosts (ghostAIS (updateGhost (eatenGhostGame 20 20) 1)))
   \<and> getGhostTarget (world (updateGhost (eatenGhostGame 20 20) 1)) 1 = Some (13, 14)
   \<and> getPosition (world (eatenGhostGame 13 14)) 1 = Some (createPosition 13 14)
   \<and> getGhostMode (world (updateGhost (eatenGhostGame 13 14) 1)) 1 = Some Scatter
   \<and> 1 \<notin> set (eatenGhosts (ghostAIS (updateGhost (eatenGhostGame 13 14) 1)))"
  using eaten_ghost_mode_resolution [OF eatenGhostGame_reads(1-5), of 20 20]
    eaten_ghost_mode_resolution [OF eatenGhostGame_reads(1-5), of 13 14]
    eatenGhostGame_reads(5,6)
  by (simp add: createPosition_def toGhostMode_def GHOST_HOUSE_TARGET_def)

text \<open>C4 as the claim words it fails: an eaten ghost in cell (14, 14), which is not the
  ghost-house target cell (13, 14), is already taken out of the pending set and given
  the global mode.\<close>

theorem eaten_ghost_released_beside_target:
  "1 \<in> set (eatenGhosts (ghostAIS (eatenGhostGame 14 14)))
   \<and> getPosition (world (eatenGhostGame 14 14)) 1 = Some (createPosition 14 14)
   \<and> gridX (createPosition 14 14) = 14
   \<and> GHOST_HOUSE_TARGET = (13, 14)
   \<and> getGhostMode (world (updateGhost (eatenGhostGame 14 14) 1)) 1 = Some Scatter
   \<and> 1 \<notin> set (eatenGhosts (ghostAIS (updateGhost (eatenGhostGame 14 14) 1)))"
proof -
  let ?g = "eatenGhostGame 14 14"
  note u = updateGhost_applyMode [OF eatenGhostGame_reads(3,4,5), of 14 14]
  have "getGhostAI (world (snd (applyMode ?g 1 ((createGhostAI Pinky)\<lparr>mode := Eaten\<rparr>)
            (createPosition 14 14) (isGhostVulnerable (world ?g) 1)))) 1
          = Some ((createGhostAI Pinky)\<lparr>mode := Scatter\<rparr>)"
    and "eatenGhosts (ghostAIS (snd (applyMode ?g 1 ((createGhostAI Pinky)\<lparr>mode := Eaten\<rparr>)
            (createPosition 14 14) (isGhostVulnerable (world ?g) 1)))) = []"
    by (simp_all add: applyMode_def resolveMode_def toGhostMode_def set_delete_def
        eatenGhostGame_def dispatch_def setGameState_def registry_reads world_ops
        typed_reads factories Let_def isAlive_def set_add_def)
  then show ?thesis
    using eatenGhostGame_reads [of 14 14]
    by (simp add: u getGhostMode_def createPosition_def GHOST_HOUSE_TARGET_def)
qed

section \<open>Movement system: tunnel wraparound\<close>



lemma isWalkable_rect:
  assumes "rectangular maze"
  shows "\<exists>b. isWalkable maze gx gy ip = Inr b"
proof (cases "0 \<le> gy \<and> gy < int (length maze)")
  case True
  then have "nat gy < length maze"
    by linarith
  then have "maze ! nat gy \<in> set maze"
    by (rule nth_mem)
  then have "length (maze ! nat gy) = length (maze ! 0)"
    using assms by (simp add: rectangular_def)
  then show ?thesis
    using True by (auto simp: isWalkable_def Let_def)
next
  case False
  then show ?thesis
    by (auto simp: isWalkable_def)
qed

lemma applyNextDirection_rect:
  assumes "rectangular maze"
  shows "\<exists>r. applyNextDirection maze ip gx gy vars = Inr r"
proof -
  obtain px py cd nd where v: "vars = (px, py, cd, nd)"
    by (cases vars) auto
  show ?thesis
  proof (cases nd)
    case None
    then show ?thesis by (simp add: v applyNextDirection_def)
  next
    case (Some d)
    obtain b where "isWalkable maze (fst (getNextGridPos gx gy d)) (snd (getNextGridPos gx gy d)) ip = Inr b"
      using isWalkable_rect [OF assms] by blast
    then show ?thesis
      by (cases b) (simp_all add: v Some applyNextDirection_def Let_def)
  qed
qed

lemma wallCheck_rect:
  assumes "rectangular maze"
  shows "\<exists>r. wallCheck maze ip dir gx gy px py nx ny = Inr r"
proof -
  have w: "\<exists>r. (case isWalkable maze x y ip of Inl e \<Rightarrow> Inl e
      | Inr True \<Rightarrow> Inr (True, a, b) | Inr False \<Rightarrow> Inr (False, c, d)) = Inr r"
    for x y and a b c d :: real
  proof -
    obtain t where "isWalkable maze x y ip = Inr t"
      using isWalkable_rect [OF assms] by blast
    then show ?thesis
      by (cases t) auto
  qed
  show ?thesis
    by (cases dir) (simp_all only: wallCheck_def Let_def Direction.case w)
qed

lemma moveEntity_rect:
  assumes "rectangular maze"
  shows "\<exists>r. moveEntity maze dt ip p v = Inr r"
proof (cases "direction v = None \<and> nextDirection v = None")
  case True
  then show ?thesis by (simp add: moveEntity_def)
next
  case False
  obtain px py cd nd where a: "applyNextDirection maze ip \<lfloor>pixelX p / TILE_SIZE\<rfloor>
      \<lfloor>pixelY p / TILE_SIZE\<rfloor> (pixelX p, pixelY p, direction v, nextDirection v)
      = Inr (px, py, cd, nd)"
    using applyNextDirection_rect [OF assms] by (metis prod_cases4)
  show ?thesis
  proof (cases cd)
    case None
    then show ?thesis using False a by (simp add: moveEntity_def Let_def)
  next
    case (Some dir)
    obtain x0 y0 where s: "stepInDirection dir px py (speed v * (dt / (1667 / 100))) = (x0, y0)"
      by (cases "stepInDirection dir px py (speed v * (dt / (1667 / 100)))") auto
    obtain b sx sy where "wallCheck maze ip dir \<lfloor>pixelX p / TILE_SIZE\<rfloor> \<lfloor>pixelY p / TILE_SIZE\<rfloor>
        px py (tunnelWrap \<lfloor>pixelY p / TILE_SIZE\<rfloor> x0) y0 = Inr (b, sx, sy)"
      using wallCheck_rect [OF assms] by (metis prod_cases3)
    then show ?thesis
      using False a Some s by (simp add: moveEntity_def Let_def)
  qed
qed


lemma moveOne_other:
  assumes "moveOne maze dt w x = Inr w'"
  shows "y \<noteq> x \<Longrightarrow> getComponent (entities w') y t = getComponent (entities w) y t"
    and "isAlive (entities w') y = isAlive (entities w) y"
    and "getComponent (entities w') y PlayerControlledT
           = getComponent (entities w) y PlayerControlledT"
    and "getPosition w y \<noteq> None \<Longrightarrow> getPosition w' y \<noteq> None"
    and "getVelocity w y \<noteq> None \<Longrightarrow> getVelocity w' y \<noteq> None"
  using assms
  by (auto simp: moveOne_def Let_def world_ops registry_reads typed_reads
      split: option.splits sum.splits prod.splits if_splits)

lemma moveOne_self:
  assumes "moveOne maze dt w e = Inr w'"
    and "isAlive (entities w) e"
    and "getPosition w e = Some p" and "getVelocity w e = Some v"
    and "moveEntity maze dt (hasComponent (entities w) e PlayerControlledT) p v
           = Inr (Some (p', v'))"
  shows "getPosition w' e = Some p'"
  using assms
  by (auto simp: moveOne_def Let_def world_ops registry_reads typed_reads)

lemma moveOne_rect:
  assumes "rectangular maze" and "getPosition w x \<noteq> None" and "getVelocity w x \<noteq> None"
  shows "\<exists>w'. moveOne maze dt w x = Inr w'"
proof -
  obtain p v where pv: "getPosition w x = Some p" "getVelocity w x = Some v"
    using assms(2,3) by auto
  obtain r where "moveEntity maze dt (hasComponent (entities w) x PlayerControlledT) p v = Inr r"
    using moveEntity_rect [OF assms(1)] by blast
  then show ?thesis
    by (cases r) (auto simp: moveOne_def pv Let_def)
qed

lemma movementLoop_rect:
  "rectangular maze \<Longrightarrow>
     \<forall>x \<in> set es. getPosition w x \<noteq> None \<and> getVelocity w x \<noteq> None \<Longrightarrow>
     \<exists>w'. movementLoop maze dt es w = Inr w'"
proof (induction es arbitrary: w)
  case Nil
  then show ?case by simp
next
  case (Cons x es)
  obtain w1 where m: "moveOne maze dt w x = Inr w1"
    using moveOne_rect [OF Cons.prems(1), of w x dt] Cons.prems(2) by auto
  have "\<forall>y \<in> set es. getPosition w1 y \<noteq> None \<and> getVelocity w1 y \<noteq> None"
    using Cons.prems(2) moveOne_other(4,5) [OF m] by simp
  from Cons.IH [OF Cons.prems(1) this] show ?case
    by (simp add: m)
qed

lemma movementLoop_other:
  "movementLoop maze dt es w = Inr w' \<Longrightarrow> e \<notin> set es \<Longrightarrow>
     getComponent (entities w') e t = getComponent (entities w) e t"
proof (induction es arbitrary: w)
  case Nil
  then show ?case by simp
next
  case (Cons x es)
  from Cons.prems(1) obtain w1 where m: "moveOne maze dt w x = Inr w1"
    and l: "movementLoop maze dt es w1 = Inr w'"
    by (auto split: sum.splits)
  show ?case
    using Cons.IH [OF l] Cons.prems(2) moveOne_other(1) [OF m, of e t] by simp
qed

lemma movementLoop_entity:
  "movementLoop maze dt es w = Inr w' \<Longrightarrow> distinct es \<Longrightarrow> e \<in> set es \<Longrightarrow>
     isAlive (entities w) e \<Longrightarrow> getPosition w e = Some p \<Longrightarrow> getVelocity w e = Some v \<Longrightarrow>
     moveEntity maze dt (hasComponent (entities w) e PlayerControlledT) p v
       = Inr (Some (p', v')) \<Longrightarrow>
     getPosition w' e = Some p'"
proof (induction es arbitrary: w)
  case Nil
  then show ?case by simp
next
  case (Cons x es)
  from Cons.prems(1) obtain w1 where m: "moveOne maze dt w x = Inr w1"
    and l: "movementLoop maze dt es w1 = Inr w'"
    by (auto split: sum.splits)
  show ?case
  proof (cases "x = e")
    case True
    have "e \<notin> set es"
      using Cons.prems(2) True by simp
    then have "getPosition w' e = getPosition w1 e"
      using movementLoop_other [OF l] by (simp add: getPosition_def)
    also have "\<dots> = Some p'"
      using moveOne_self [OF m [unfolded True] Cons.prems(4,5,6,7)] .
    finally show ?thesis .
  next
    case False
    have same: "getComponent (entities w1) e t = getComponent (entities w) e t" for t
      using moveOne_other(1) [OF m, of e] False by simp
    have "getPosition w1 e = Some p" "getVelocity w1 e = Some v"
      "hasComponent (entities w1) e PlayerControlledT
         = hasComponent (entities w) e PlayerControlledT"
      "isAlive (entities w1) e"
      using Cons.prems(4,5,6) moveOne_other(2) [OF m]
      by (simp_all add: getPosition_def getVelocity_def same hasComponent_getComponent)
    with Cons.IH [OF l, of ] Cons.prems(2,3,7) False show ?thesis
      by simp
  qed
qed


lemma movementUpdate_entity:
  assumes playing: "gameState (world g) = Playing"
    and dt: "deltaTime (world g) \<noteq> 0"
    and rect: "rectangular maze"
    and typed: "\<forall>x \<in> set (getEntitiesWithComponents (entities (world g)) [PositionT, VelocityT]).
                  getPosition (world g) x \<noteq> None \<and> getVelocity (world g) x \<noteq> None"
    and dist: "distinct (aliveEntities (entities (world g)))"
    and alive: "isAlive (entities (world g)) e"
    and pos: "getPosition (world g) e = Some position"
    and vel: "getVelocity (world g) e = Some velocity"
    and mv: "moveEntity maze (deltaTime (world g))
               (hasComponent (entities (world g)) e PlayerControlledT) position velocity
             = Inr (Some (p', v'))"
  shows "\<exists>g'. movementUpdate maze g = Inr g' \<and> getPosition (world g') e = Some p'"
proof -
  let ?es = "getEntitiesWithComponents (entities (world g)) [PositionT, VelocityT]"
  obtain w' where l: "movementLoop maze (deltaTime (world g)) ?es (world g) = Inr w'"
    using movementLoop_rect [OF rect typed] by blast
  have d: "distinct ?es"
    using dist by (simp add: getEntitiesWithComponents_filter)
  have m: "e \<in> set ?es"
    using alive pos vel
    by (auto simp: getEntitiesWithComponents_filter hasAll_iff hasComponent_getComponent
        isAlive_def getPosition_def getVelocity_def split: option.splits)
  have "getPosition w' e = Some p'"
    using movementLoop_entity [OF l d m alive pos vel mv] .
  then show ?thesis
    using playing dt l by (simp add: movementUpdate_def)
qed



lemma MAZE_ROWS_length: "length MAZE_ROWS = 31"
  by (simp add: MAZE_ROWS_def)

lemma MAZE_ROWS_width: "\<forall>r \<in> set MAZE_ROWS. length r = 28"
  by (simp add: MAZE_ROWS_def)

lemma ORIGINAL_MAZE_length: "length ORIGINAL_MAZE = 31"
  by (simp add: ORIGINAL_MAZE_def ORIGINAL_MAZE_NUMERIC_def MAZE_ROWS_length)

lemma ORIGINAL_MAZE_row:
  "y < 31 \<Longrightarrow>
     ORIGINAL_MAZE ! y = map (\<lambda>(x, cell). convertCell cell x y)
                           (enumerate 0 (map cellCode (MAZE_ROWS ! y)))"
  by (simp add: ORIGINAL_MAZE_def ORIGINAL_MAZE_NUMERIC_def MAZE_ROWS_length nth_enumerate_eq)

lemma ORIGINAL_MAZE_row_length: "y < 31 \<Longrightarrow> length (ORIGINAL_MAZE ! y) = 28"
  using MAZE_ROWS_width by (simp add: ORIGINAL_MAZE_row MAZE_ROWS_length)

lemma ORIGINAL_MAZE_cell:
  "y < 31 \<Longrightarrow> x < 28 \<Longrightarrow>
     ORIGINAL_MAZE ! y ! x = convertCell (cellCode (MAZE_ROWS ! y ! x)) x y"
  using MAZE_ROWS_width
  by (simp add: ORIGINAL_MAZE_row MAZE_ROWS_length nth_enumerate_eq)


lemma cellCode_digits:
  "cellCode CHR ''0'' = 0" "cellCode CHR ''1'' = 1" "cellCode CHR ''2'' = 2"
  "cellCode CHR ''3'' = 3" "cellCode CHR ''4'' = 4" "cellCode CHR ''5'' = 5"
  by (simp_all add: cellCode_def)


lemma rectangular_ORIGINAL_MAZE: "rectangular ORIGINAL_MAZE"
proof -
  have "length r = 28" if "r \<in> set ORIGINAL_MAZE" for r
  proof -
    from that obtain y where y: "y < length ORIGINAL_MAZE" "ORIGINAL_MAZE ! y = r"
      unfolding in_set_conv_nth by blast
    have "length (ORIGINAL_MAZE ! y) = 28"
      using y(1) by (simp add: ORIGINAL_MAZE_length ORIGINAL_MAZE_row_length)
    then show ?thesis
      using y(2) by simp
  qed
  moreover have "length (ORIGINAL_MAZE ! 0) = 28"
    by (simp add: ORIGINAL_MAZE_row_length)
  ultimately show ?thesis
    unfolding rectangular_def by simp
qed

lemma tunnel_row_wall: "MAZE_ROWS ! 14 ! 17 = CHR ''1''"
  by (simp add: MAZE_ROWS_def)

lemma ORIGINAL_MAZE_tunnel_wall: "isWalkable ORIGINAL_MAZE 17 14 True = Inr False"
  by (simp add: isWalkable_def ORIGINAL_MAZE_length ORIGINAL_MAZE_row_length
      ORIGINAL_MAZE_cell tunnel_row_wall cellCode_digits convertCell_def TUNNEL_ROW_def)

lemma tunnelGame_reads:
  "gameState (world (tunnelGame gx x dir dt)) = Playing"
  "deltaTime (world (tunnelGame gx x dir dt)) = dt"
  "aliveEntities (entities (world (tunnelGame gx x dir dt))) = [0]"
  "getEntitiesWithComponents (entities (world (tunnelGame gx x dir dt))) [PositionT, VelocityT]
     = [0]"
  "isAlive (entities (world (tunnelGame gx x dir dt))) 0"
  "hasComponent (entities (world (tunnelGame gx x dir dt))) 0 PlayerControlledT"
  "getPosition (world (tunnelGame gx x dir dt)) 0
     = Some \<lparr>gridX = gx, gridY = 14, pixelX = x, pixelY = 290\<rparr>"
  "getVelocity (world (tunnelGame gx x dir dt)) 0
     = Some \<lparr>direction = Some dir, speed = 2, nextDirection = None\<rparr>"
  by (simp_all add: tunnelGame_def setGameState_def setDeltaTime_def
      registry_reads world_ops typed_reads factories Let_def isAlive_def set_add_def)



text \<open>C8 as the claim words it fails on a long frame: the player stands at the left
  edge of the tunnel row and one frame of 1667 ms carries the tentative X to -200,
  which wraps to 360; the leading edge there is in the wall of column 17, the wall
  check rejects the move, and the position written back is the centre of cell 0, not
  the mirrored position at the right edge.\<close>

theorem long_frame_cancels_wrapped_move:
  "gameState (world (tunnelGame 0 0 Left 1667)) = Playing
   \<and> deltaTime (world (tunnelGame 0 0 Left 1667)) = 1667
   \<and> getPosition (world (tunnelGame 0 0 Left 1667)) 0
       = Some \<lparr>gridX = 0, gridY = 14, pixelX = 0, pixelY = 290\<rparr>
   \<and> getVelocity (world (tunnelGame 0 0 Left 1667)) 0
       = Some \<lparr>direction = Some Left, speed = 2, nextDirection = None\<rparr>
   \<and> stepInDirection Left 0 290 (2 * (1667 / (1667 / 100))) = (- 200, 290)
   \<and> tunnelWrap 14 (- 200) = 360
   \<and> positionAfterMovement ORIGINAL_MAZE (tunnelGame 0 0 Left 1667) 0
       = Inr (Some \<lparr>gridX = 0, gridY = 14, pixelX = 10, pixelY = 290\<rparr>)"
proof -
  let ?g = "tunnelGame 0 0 Left 1667"
  let ?p = "\<lparr>gridX = 0, gridY = 14, pixelX = 0, pixelY = 290\<rparr>"
  let ?v = "\<lparr>direction = Some Left, speed = 2, nextDirection = None\<rparr>"
  have m: "moveEntity ORIGINAL_MAZE (deltaTime (world ?g))
      (hasComponent (entities (world ?g)) 0 PlayerControlledT) ?p ?v
      = Inr (Some (\<lparr>gridX = 0, gridY = 14, pixelX = 10, pixelY = 290\<rparr>, ?v))"
    by (simp add: tunnelGame_reads moveEntity_def applyNextDirection_def stepInDirection_def
        tunnelWrap_def wallCheck_def ORIGINAL_MAZE_tunnel_wall TILE_SIZE_def MAZE_WIDTH_def
        TUNNEL_ROW_def Let_def)
  have "\<exists>g'. movementUpdate ORIGINAL_MAZE ?g = Inr g'
      \<and> getPosition (world g') 0 = Some \<lparr>gridX = 0, gridY = 14, pixelX = 10, pixelY = 290\<rparr>"
    by (rule movementUpdate_entity [OF _ _ rectangular_ORIGINAL_MAZE _ _ _ _ _ m])
      (simp_all add: tunnelGame_reads)
  then have "positionAfterMovement ORIGINAL_MAZE ?g 0
      = Inr (Some \<lparr>gridX = 0, gridY = 14, pixelX = 10, pixelY = 290\<rparr>)"
    by (auto simp: positionAfterMovement_def)
  then show ?thesis
    by (simp add: tunnelGame_reads stepInDirection_def tunnelWrap_def TUNNEL_ROW_def
        MAZE_WIDTH_def TILE_SIZE_def)
qed
section \<open>Collision system\<close>

lemma GHOST_POINTS_streak:
  "GHOST_POINTS ! min s (length GHOST_POINTS - Suc 0) = streakPoints (Suc s)"
proof -
  consider "s = 0" | "s = 1" | "s = 2" | "s \<ge> 3" by linarith
  then show ?thesis
    by cases (simp_all add: GHOST_POINTS_def streakPoints_def min_def)
qed

lemma streakPoints_pos: "streakPoints k > 0"
  by (simp add: streakPoints_def)

lemma eatGhost_world:
  "world (eatGhost g e) =
     (let w = world g;
          w1 = w\<lparr>ghostEatenStreak := ghostEatenStreak w + 1,
                 score := score w + streakPoints (ghostEatenStreak w + 1)\<rparr>;
          w3 = world_removeComponent w1 e VulnerableT
      in case getGhostAI w e of
           None \<Rightarrow> w3
         | Some ai \<Rightarrow> world_addComponent w3 e GhostAIT (GhostAIC (ai\<lparr>mode := Eaten\<rparr>)))"
  using streakPoints_pos [of "Suc (ghostEatenStreak (world g))"]
  by (simp add: eatGhost_def Let_def dispatch_def incrementGhostEatenStreak_def addScore_def
      GHOST_POINTS_streak world_ops registry_reads typed_reads split: option.splits Component.splits)

lemma eatGhost_dispatched:
  "dispatched (eatGhost g e) =
     dispatched g @ [GhostEaten e (case getGhostType (world g) e of None \<Rightarrow> Blinky | Some ty \<Rightarrow> ty)
        (streakPoints (ghostEatenStreak (world g) + 1)) (ghostEatenStreak (world g) + 1)
        (getPosition (world g) e)]"
  by (simp add: eatGhost_def Let_def dispatch_def incrementGhostEatenStreak_def addScore_def
      GHOST_POINTS_streak world_ops registry_reads typed_reads getGhostType_def
      split: option.splits Component.splits)

lemma eatGhost_scalars:
  "lives (world (eatGhost g e)) = lives (world g)"
  "gameState (world (eatGhost g e)) = gameState (world g)"
  "level (world (eatGhost g e)) = level (world g)"
  "ghostEatenStreak (world (eatGhost g e)) = ghostEatenStreak (world g) + 1"
  "score (world (eatGhost g e)) = score (world g) + streakPoints (ghostEatenStreak (world g) + 1)"
  "aliveEntities (entities (world (eatGhost g e))) = aliveEntities (entities (world g))"
  by (simp_all add: eatGhost_world Let_def world_ops registry_reads split: option.splits)

lemma eatGhost_other:
  "e' \<noteq> e \<Longrightarrow> getComponent (entities (world (eatGhost g e))) e' t = getComponent (entities (world g)) e' t"
  by (simp add: eatGhost_world Let_def world_ops registry_reads split: option.splits)

lemma eatGhost_position:
  "getPosition (world (eatGhost g e)) e' = getPosition (world g) e'"
  by (simp add: eatGhost_world Let_def world_ops registry_reads getPosition_def split: option.splits)

lemma eatGhost_other_reads:
  "e' \<noteq> e \<Longrightarrow> isGhostVulnerable (world (eatGhost g e)) e' = isGhostVulnerable (world g) e'"
  "e' \<noteq> e \<Longrightarrow> getGhostType (world (eatGhost g e)) e' = getGhostType (world g) e'"
  by (simp_all add: isGhostVulnerable_def getVulnerable_def getGhostType_def getGhostAI_def eatGhost_other)

lemma expectedGhostEaten_cong:
  "(\<And>e. e \<in> set es \<Longrightarrow> getGhostType w' e = getGhostType w e \<and> getPosition w' e = getPosition w e)
     \<Longrightarrow> expectedGhostEaten w' s es = expectedGhostEaten w s es"
  by (induction es arbitrary: s) auto

lemma processCollisions_all_vulnerable:
  "distinct cs \<Longrightarrow> \<forall>e \<in> set cs. isGhostVulnerable (world g) e \<Longrightarrow>
     dispatched (processCollisions cs g)
       = dispatched g @ expectedGhostEaten (world g) (ghostEatenStreak (world g)) cs
     \<and> lives (world (processCollisions cs g)) = lives (world g)
     \<and> gameState (world (processCollisions cs g)) = gameState (world g)
     \<and> ghostEatenStreak (world (processCollisions cs g)) = ghostEatenStreak (world g) + length cs"
proof (induction cs arbitrary: g)
  case Nil
  then show ?case by simp
next
  case (Cons e es)
  have ne: "x \<noteq> e" if "x \<in> set es" for x
    using that Cons.prems(1) by auto
  have v: "\<forall>x \<in> set es. isGhostVulnerable (world (eatGhost g e)) x"
    using Cons.prems(2) by (simp add: ne eatGhost_other_reads)
  have c: "expectedGhostEaten (world (eatGhost g e)) s es = expectedGhostEaten (world g) s es" for s
    by (intro expectedGhostEaten_cong) (simp add: ne eatGhost_other_reads eatGhost_position)
  from Cons.IH [OF _ v] Cons.prems show ?case
    by (simp add: eatGhost_dispatched eatGhost_scalars c)
qed


lemma processCollisions_others:
  "distinct cs \<Longrightarrow> \<forall>e \<in> set cs. isGhostVulnerable (world g) e \<Longrightarrow> x \<notin> set cs \<Longrightarrow>
     getComponent (entities (world (processCollisions cs g))) x t
       = getComponent (entities (world g)) x t"
proof (induction cs arbitrary: g)
  case Nil
  then show ?case by simp
next
  case (Cons e es)
  have ne: "y \<noteq> e" if "y \<in> set es" for y
    using that Cons.prems(1) by auto
  have v: "\<forall>y \<in> set es. isGhostVulnerable (world (eatGhost g e)) y"
    using Cons.prems(2) by (simp add: ne eatGhost_other_reads)
  from Cons.IH [OF _ v] Cons.prems show ?case
    by (simp add: eatGhost_other)
qed

lemma processCollisions_score:
  "distinct cs \<Longrightarrow> \<forall>e \<in> set cs. isGhostVulnerable (world g) e \<Longrightarrow>
     level (world (processCollisions cs g)) = level (world g)
     \<and> aliveEntities (entities (world (processCollisions cs g))) = aliveEntities (entities (world g))"
proof (induction cs arbitrary: g)
  case Nil
  then show ?case by simp
next
  case (Cons e es)
  have ne: "y \<noteq> e" if "y \<in> set es" for y
    using that Cons.prems(1) by auto
  have v: "\<forall>y \<in> set es. isGhostVulnerable (world (eatGhost g e)) y"
    using Cons.prems(2) by (simp add: ne eatGhost_other_reads)
  from Cons.IH [OF _ v] Cons.prems show ?case
    by (simp add: eatGhost_scalars)
qed

lemma findColliding_filter:
  "findColliding w p gs acc =
     acc @ filter (\<lambda>e. getGhostMode w e \<noteq> Some Eaten \<and> areColliding w p e) gs"
  by (induction gs arbitrary: acc) auto

lemma distinct_findColliding:
  "distinct (aliveEntities (entities w)) \<Longrightarrow>
     distinct (findColliding w p (getGhostEntities w) [])"
  by (simp add: findColliding_filter getGhostEntities_def getEntitiesWithComponents_filter)

lemma ghostEatenPoints_expected:
  "ghostEatenPoints (expectedGhostEaten w s cs) = map (\<lambda>i. streakPoints (s + i + 1)) [0..<length cs]"
proof (induction cs arbitrary: s)
  case Nil
  then show ?case by simp
next
  case (Cons e es)
  have "map (\<lambda>i. streakPoints (s + i + 1)) [0..<Suc (length es)]
      = streakPoints (s + 1) # map (\<lambda>i. streakPoints (Suc s + i + 1)) [0..<length es]"
    by (simp add: upt_conv_Cons map_Suc_upt [symmetric] del: upt_Suc)
  with Cons show ?case by simp
qed

lemma ghostEatenPoints_append:
  "ghostEatenPoints (xs @ ys) = ghostEatenPoints xs @ ghostEatenPoints ys"
  by (induction xs rule: ghostEatenPoints.induct) auto




lemma killPlayer_reads:
  "lives (world (killPlayer g)) = lives (loseLife (world g))"
  "gameState (world (killPlayer g)) =
     (if lives (loseLife (world g)) = 0 then Lost
      else if lives (loseLife (world g)) > 0 then Dying else gameState (world g))"
  "entities (world (killPlayer g)) = entities (world g)"
  "ghostEatenStreak (world (killPlayer g)) = ghostEatenStreak (world g)"
  "score (world (killPlayer g)) = score (world g)"
  "level (world (killPlayer g)) = level (world g)"
  "dispatched (killPlayer g) =
     dispatched g @ PlayerDied (lives (loseLife (world g)))
       # (if lives (loseLife (world g)) = 0 then [GameOver (score (world g)) (level (world g))]
          else [])"
  by (simp_all add: killPlayer_def Let_def dispatch_def loseLife_def setGameState_def)

lemma processCollisions_death:
  "distinct pre \<Longrightarrow> \<forall>e \<in> set pre. isGhostVulnerable (world g) e \<Longrightarrow>
     \<not> isGhostVulnerable (world g) k \<Longrightarrow>
     processCollisions (pre @ k # post) g = killPlayer (processCollisions pre g)"
proof (induction pre arbitrary: g)
  case Nil
  then show ?case by simp
next
  case (Cons e es)
  have ne: "y \<noteq> e" if "y \<in> set es" for y
    using that Cons.prems(1) by auto
  have v: "\<forall>y \<in> set es. isGhostVulnerable (world (eatGhost g e)) y"
    using Cons.prems(2) by (simp add: ne eatGhost_other_reads)
  have "k \<noteq> e"
    using Cons.prems(2,3) by auto
  then have k: "\<not> isGhostVulnerable (world (eatGhost g e)) k"
    using Cons.prems(3) by (simp add: eatGhost_other_reads)
  from Cons.IH [OF _ v k] Cons.prems show ?case
    by simp
qed

lemma eatGhost_no_death:
  "playerDiedEvents (drop (length (dispatched g)) (dispatched (eatGhost g e))) = []"
  by (simp add: eatGhost_dispatched)

lemma dispatched_eatGhost_prefix: "length (dispatched g) \<le> length (dispatched (eatGhost g e))"
  by (simp add: eatGhost_dispatched)

lemma processCollisions_bound:
  "\<exists>evs. dispatched (processCollisions cs g) = dispatched g @ evs
      \<and> length (playerDiedEvents evs) \<le> 1
      \<and> lives (world g) - 1 \<le> lives (world (processCollisions cs g))
      \<and> lives (world (processCollisions cs g)) \<le> lives (world g)"
proof (induction cs arbitrary: g)
  case Nil
  then show ?case by simp
next
  case (Cons e es)
  show ?case
  proof (cases "isGhostVulnerable (world g) e")
    case True
    from Cons.IH [of "eatGhost g e"] obtain evs where
      "dispatched (processCollisions es (eatGhost g e)) = dispatched (eatGhost g e) @ evs"
      "length (playerDiedEvents evs) \<le> 1"
      "lives (world (eatGhost g e)) - 1 \<le> lives (world (processCollisions es (eatGhost g e)))"
      "lives (world (processCollisions es (eatGhost g e))) \<le> lives (world (eatGhost g e))"
      by blast
    with True show ?thesis
      by (simp add: eatGhost_dispatched eatGhost_scalars)
  next
    case False
    then show ?thesis
      by (simp add: killPlayer_reads loseLife_def)
  qed
qed

text \<open>C2, as the code has it. In every tick of the collision system at most one
  player-died event is dispatched and the lives go down by at most one. When, in a
  playing game with a player, the colliding ghosts (in processing order) are
  \<open>pre @ k # post\<close> with every ghost of \<open>pre\<close> vulnerable and \<open>k\<close> not vulnerable, then:
  \<open>loseLife\<close> is applied once, so the lives go down by one when they are positive and
  stay as they are otherwise; after the ghost-eaten events for \<open>pre\<close>, player-died is
  dispatched with the remaining lives, followed by game-over with the final score and
  level exactly when the remaining lives are zero; the game state becomes lost exactly
  when the remaining lives are zero; and \<open>k\<close> and the ghosts of \<open>post\<close> are not processed:
  all their components are as before, and the streak counts only \<open>pre\<close>.\<close>

theorem one_death_per_tick:
  "(\<exists>evs. dispatched (collisionUpdate g) = dispatched g @ evs
       \<and> length (playerDiedEvents evs) \<le> 1
       \<and> lives (world g) - 1 \<le> lives (world (collisionUpdate g)))
   \<and> (gameState (world g) = Playing \<and> getPlayerEntity (world g) = Some p
        \<and> distinct (aliveEntities (entities (world g)))
        \<and> findColliding (world g) p (getGhostEntities (world g)) [] = pre @ k # post
        \<and> (\<forall>e \<in> set pre. isGhostVulnerable (world g) e)
        \<and> \<not> isGhostVulnerable (world g) k
      \<longrightarrow>
        lives (world (collisionUpdate g))
          = (if lives (world g) > 0 then lives (world g) - 1 else lives (world g))
        \<and> dispatched (collisionUpdate g)
          = dispatched g @ expectedGhostEaten (world g) (ghostEatenStreak (world g)) pre
              @ PlayerDied (lives (world (collisionUpdate g)))
              # (if lives (world (collisionUpdate g)) = 0
                 then [GameOver (score (world (collisionUpdate g)))
                         (level (world (collisionUpdate g)))]
                 else [])
        \<and> (gameState (world (collisionUpdate g)) = Lost) = (lives (world (collisionUpdate g)) = 0)
        \<and> ghostEatenStreak (world (collisionUpdate g))
          = ghostEatenStreak (world g) + length pre
        \<and> (\<forall>x \<in> set (k # post). \<forall>t.
              getComponent (entities (world (collisionUpdate g))) x t
                = getComponent (entities (world g)) x t))"
proof (intro conjI impI)
  show "\<exists>evs. dispatched (collisionUpdate g) = dispatched g @ evs
       \<and> length (playerDiedEvents evs) \<le> 1
       \<and> lives (world g) - 1 \<le> lives (world (collisionUpdate g))"
    using processCollisions_bound
    by (auto simp: collisionUpdate_def split: option.splits)
next
  assume a: "gameState (world g) = Playing \<and> getPlayerEntity (world g) = Some p
        \<and> distinct (aliveEntities (entities (world g)))
        \<and> findColliding (world g) p (getGhostEntities (world g)) [] = pre @ k # post
        \<and> (\<forall>e \<in> set pre. isGhostVulnerable (world g) e)
        \<and> \<not> isGhostVulnerable (world g) k"
  have d: "distinct (pre @ k # post)"
    using distinct_findColliding [of "world g" p] a by simp
  then have dp: "distinct pre" by simp
  have u: "collisionUpdate g = killPlayer (processCollisions pre g)"
    using a processCollisions_death [OF dp, of g k post] by (simp add: collisionUpdate_def)
  note pv = processCollisions_all_vulnerable [OF dp, of g] processCollisions_score [OF dp, of g]
  have other: "getComponent (entities (world (processCollisions pre g))) x t
       = getComponent (entities (world g)) x t" if "x \<in> set (k # post)" for x t
    using processCollisions_others [OF dp, of g x t] a d that by auto
  show "lives (world (collisionUpdate g))
          = (if lives (world g) > 0 then lives (world g) - 1 else lives (world g))"
    using pv a by (simp add: u killPlayer_reads loseLife_def)
  show "dispatched (collisionUpdate g)
          = dispatched g @ expectedGhostEaten (world g) (ghostEatenStreak (world g)) pre
              @ PlayerDied (lives (world (collisionUpdate g)))
              # (if lives (world (collisionUpdate g)) = 0
                 then [GameOver (score (world (collisionUpdate g)))
                         (level (world (collisionUpdate g)))]
                 else [])"
    using pv a by (simp add: u killPlayer_reads)
  show "(gameState (world (collisionUpdate g)) = Lost) = (lives (world (collisionUpdate g)) = 0)"
    using pv a by (simp add: u killPlayer_reads)
  show "ghostEatenStreak (world (collisionUpdate g)) = ghostEatenStreak (world g) + length pre"
    using pv a by (simp add: u killPlayer_reads)
  show "\<forall>x \<in> set (k # post). \<forall>t.
              getComponent (entities (world (collisionUpdate g))) x t
                = getComponent (entities (world g)) x t"
    using other by (simp add: u killPlayer_reads)
qed

lemma processCollisions_total_score:
  "distinct cs \<Longrightarrow> \<forall>e \<in> set cs. isGhostVulnerable (world g) e \<Longrightarrow>
     score (world (processCollisions cs g))
       = score (world g)
         + sum_list (map (\<lambda>i. streakPoints (ghostEatenStreak (world g) + i + 1)) [0..<length cs])"
proof (induction cs arbitrary: g)
  case Nil
  then show ?case by simp
next
  case (Cons e es)
  have ne: "y \<noteq> e" if "y \<in> set es" for y
    using that Cons.prems(1) by auto
  have v: "\<forall>y \<in> set es. isGhostVulnerable (world (eatGhost g e)) y"
    using Cons.prems(2) by (simp add: ne eatGhost_other_reads)
  have sh: "map (\<lambda>i. streakPoints (ghostEatenStreak (world g) + i + 1)) [0..<length (e # es)]
      = streakPoints (ghostEatenStreak (world g) + 1)
        # map (\<lambda>i. streakPoints (ghostEatenStreak (world g) + 1 + i + 1)) [0..<length es]"
    by (simp add: map_upt_Suc del: upt_Suc)
  from Cons.IH [OF _ v] Cons.prems show ?case
    unfolding sh by (simp add: eatGhost_scalars)
qed

text \<open>C3. Let the game be playing with a player, and let every ghost that the collision
  system finds colliding (the list \<open>cs\<close>, in processing order) be vulnerable. Then the
  events of the tick are exactly one ghost-eaten event per colliding ghost, in that
  order; the kill streak goes up by one per eaten ghost, and the ghost eaten at streak
  position \<open>k\<close> is awarded 200, 400, 800, 1600 for \<open>k = 1, 2, 3, 4\<close> and 1600 for every
  \<open>k\<close> from 5 on: these are the points the events carry, and the score grows by their
  sum. In particular four colliding vulnerable ghosts, met with the streak at 0, are
  awarded 200, 400, 800, 1600 in processing order and add 3000 to the score; a fifth
  one in the same tick is awarded 1600 more. No life is lost.\<close>

theorem streak_doubling:
  assumes "gameState (world g) = Playing"
    and "getPlayerEntity (world g) = Some p"
    and "distinct (aliveEntities (entities (world g)))"
    and "findColliding (world g) p (getGhostEntities (world g)) [] = cs"
    and "\<forall>e \<in> set cs. isGhostVulnerable (world g) e"
  shows "dispatched (collisionUpdate g)
           = dispatched g @ expectedGhostEaten (world g) (ghostEatenStreak (world g)) cs
     \<and> ghostEatenPoints (drop (length (dispatched g)) (dispatched (collisionUpdate g)))
           = map (\<lambda>i. streakPoints (ghostEatenStreak (world g) + i + 1)) [0..<length cs]
     \<and> score (world (collisionUpdate g))
           = score (world g)
             + sum_list (map (\<lambda>i. streakPoints (ghostEatenStreak (world g) + i + 1))
                           [0..<length cs])
     \<and> (ghostEatenStreak (world g) = 0 \<and> length cs = 4 \<longrightarrow>
           ghostEatenPoints (drop (length (dispatched g)) (dispatched (collisionUpdate g)))
             = [200, 400, 800, 1600]
           \<and> score (world (collisionUpdate g)) = score (world g) + 3000)
     \<and> (ghostEatenStreak (world g) = 0 \<and> length cs = 5 \<longrightarrow>
           ghostEatenPoints (drop (length (dispatched g)) (dispatched (collisionUpdate g)))
             = [200, 400, 800, 1600, 1600]
           \<and> score (world (collisionUpdate g)) = score (world g) + 4600)
     \<and> (\<forall>k \<ge> 5. streakPoints k = 1600)
     \<and> ghostEatenStreak (world (collisionUpdate g)) = ghostEatenStreak (world g) + length cs
     \<and> lives (world (collisionUpdate g)) = lives (world g)"
proof -
  have d: "distinct cs"
    using distinct_findColliding [OF assms(3), of p] assms(4) by simp
  have u: "collisionUpdate g = processCollisions cs g"
    using assms by (simp add: collisionUpdate_def)
  have four: "map (\<lambda>i. streakPoints (i + 1)) [0..<4] = [200, 400, 800, 1600]"
    by (simp add: streakPoints_def upt_conv_Cons del: upt_Suc)
  have five: "map (\<lambda>i. streakPoints (i + 1)) [0..<5] = [200, 400, 800, 1600, 1600]"
    by (simp add: streakPoints_def upt_conv_Cons del: upt_Suc)
  have cap: "\<forall>k \<ge> 5. streakPoints k = 1600"
    by (simp add: streakPoints_def min_def)
  show ?thesis
    using processCollisions_all_vulnerable [OF d assms(5)]
      processCollisions_total_score [OF d assms(5)] cap four five
    by (simp add: u ghostEatenPoints_expected)
qed


lemma collision_setup_reads:
  "aliveEntities (entities (createWorld None)) = []"
  "nextId (entities (createWorld None)) = 0"
  "entities (loseLife w) = entities w"
  "gameState (world (collisionGame w0 ghosts)) = Playing"
  "lives (world (collisionGame w0 ghosts)) = lives w0"
  "score (world (collisionGame w0 ghosts)) = score w0"
  "level (world (collisionGame w0 ghosts)) = level w0"
  "ghostEatenStreak (world (collisionGame w0 ghosts)) = ghostEatenStreak w0"
  "dispatched (collisionGame w0 ghosts) = []"
  by (induction ghosts rule: rev_induct;
      simp add: collisionGame_def addGhostAt_def setGameState_def loseLife_def world_ops
        factories Let_def createEntityManager_def)+

lemmas collision_eval =
  collisionGame_def addGhostAt_def setGameState_def loseLife_def createVulnerable_def
  areColliding_def COLLISION_THRESHOLD_def findColliding_filter
  registry_reads world_ops typed_reads selectors factories Let_def isAlive_def set_add_def

theorem streak_doubling_witness:
  "findColliding (world (collisionGame (createWorld None)
        [(Blinky, True), (Pinky, True), (Inky, True), (Clyde, True)])) 0
      (getGhostEntities (world (collisionGame (createWorld None)
        [(Blinky, True), (Pinky, True), (Inky, True), (Clyde, True)]))) [] = [1, 2, 3, 4]
   \<and> ghostEatenPoints (dispatched (collisionUpdate (collisionGame (createWorld None)
        [(Blinky, True), (Pinky, True), (Inky, True), (Clyde, True)])))
      = [200, 400, 800, 1600]
   \<and> score (world (collisionGame (createWorld None)
        [(Blinky, True), (Pinky, True), (Inky, True), (Clyde, True)])) = 0
   \<and> score (world (collisionUpdate (collisionGame (createWorld None)
        [(Blinky, True), (Pinky, True), (Inky, True), (Clyde, True)]))) = 3000
   \<and> ghostEatenStreak (world (collisionUpdate (collisionGame (createWorld None)
        [(Blinky, True), (Pinky, True), (Inky, True), (Clyde, True)]))) = 4
   \<and> lives (world (collisionUpdate (collisionGame (createWorld None)
        [(Blinky, True), (Pinky, True), (Inky, True), (Clyde, True)]))) = 3"
proof -
  let ?g = "collisionGame (createWorld None)
        [(Blinky, True), (Pinky, True), (Inky, True), (Clyde, True)]"
  have h: "gameState (world ?g) = Playing"
    "getPlayerEntity (world ?g) = Some 0"
    "distinct (aliveEntities (entities (world ?g)))"
    "findColliding (world ?g) 0 (getGhostEntities (world ?g)) [] = [1, 2, 3, 4]"
    "\<forall>e \<in> set [1, 2, 3, 4]. isGhostVulnerable (world ?g) e"
    by (simp_all add: collision_eval)
  from streak_doubling [OF h] h(4) show ?thesis
    by (simp add: collision_setup_reads createWorld_def DEFAULT_LIVES_def streakPoints_def)
qed

theorem one_death_per_tick_witness:
  "findColliding (world (collisionGame (createWorld None)
        [(Blinky, True), (Pinky, False), (Inky, False)])) 0
      (getGhostEntities (world (collisionGame (createWorld None)
        [(Blinky, True), (Pinky, False), (Inky, False)]))) [] = [1, 2, 3]
   \<and> lives (world (collisionGame (createWorld None)
        [(Blinky, True), (Pinky, False), (Inky, False)])) = 3
   \<and> lives (world (collisionUpdate (collisionGame (createWorld None)
        [(Blinky, True), (Pinky, False), (Inky, False)]))) = 2
   \<and> dispatched (collisionUpdate (collisionGame (createWorld None)
        [(Blinky, True), (Pinky, False), (Inky, False)]))
      = [GhostEaten 1 Blinky 200 1 (Some (createPosition 10 10)), PlayerDied 2]
   \<and> gameState (world (collisionUpdate (collisionGame (createWorld None)
        [(Blinky, True), (Pinky, False), (Inky, False)]))) = Dying"
proof -
  let ?g = "collisionGame (createWorld None) [(Blinky, True), (Pinky, False), (Inky, False)]"
  have h: "gameState (world ?g) = Playing"
    "getPlayerEntity (world ?g) = Some 0"
    "distinct (aliveEntities (entities (world ?g)))"
    "findColliding (world ?g) 0 (getGhostEntities (world ?g)) [] = [1] @ 2 # [3]"
    "\<forall>e \<in> set [1]. isGhostVulnerable (world ?g) e"
    "\<not> isGhostVulnerable (world ?g) 2"
    "getGhostType (world ?g) 1 = Some Blinky"
    "getPosition (world ?g) 1 = Some (createPosition 10 10)"
    by (simp_all add: collision_eval)
  have s: "gameState (world (collisionUpdate ?g)) = Dying"
    using h(1,2,4,5,6)
    by (simp add: collisionUpdate_def eatGhost_scalars eatGhost_other_reads killPlayer_reads
        loseLife_def collision_setup_reads createWorld_def DEFAULT_LIVES_def)
  from one_death_per_tick [of ?g 0 "[1]" 2 "[3]"] h s show ?thesis
    by (simp add: collision_setup_reads createWorld_def DEFAULT_LIVES_def streakPoints_def)
qed

text \<open>C2 as the claim words it fails when no life is left: the death of the tick is
  processed (player-died and game-over are dispatched), yet no life is decremented.\<close>

theorem death_without_life_lost:
  "gameState (world (collisionGame (loseLife (loseLife (loseLife (createWorld None))))
        [(Blinky, False)])) = Playing
   \<and> lives (world (collisionGame (loseLife (loseLife (loseLife (createWorld None))))
        [(Blinky, False)])) = 0
   \<and> findColliding (world (collisionGame (loseLife (loseLife (loseLife (createWorld None))))
        [(Blinky, False)])) 0
      (getGhostEntities (world (collisionGame (loseLife (loseLife (loseLife (createWorld None))))
        [(Blinky, False)]))) [] = [1]
   \<and> isGhostVulnerable (world (collisionGame (loseLife (loseLife (loseLife (createWorld None))))
        [(Blinky, False)])) 1 = False
   \<and> lives (world (collisionUpdate (collisionGame
        (loseLife (loseLife (loseLife (createWorld None)))) [(Blinky, False)]))) = 0
   \<and> dispatched (collisionUpdate (collisionGame
        (loseLife (loseLife (loseLife (createWorld None)))) [(Blinky, False)]))
      = [PlayerDied 0, GameOver 0 1]"
proof -
  let ?g = "collisionGame (loseLife (loseLife (loseLife (createWorld None)))) [(Blinky, False)]"
  have h: "gameState (world ?g) = Playing"
    "getPlayerEntity (world ?g) = Some 0"
    "findColliding (world ?g) 0 (getGhostEntities (world ?g)) [] = [1]"
    "\<not> isGhostVulnerable (world ?g) 1"
    "lives (world ?g) = 0" "score (world ?g) = 0" "level (world ?g) = 1"
    by (simp_all add: collision_eval collision_setup_reads)
  show ?thesis
    using h
    by (simp add: collisionUpdate_def killPlayer_reads loseLife_def collision_setup_reads)
qed

section \<open>The pipeline: eating, then power-up, then collision\<close>


































lemma sqrt_zero_reach: "a = b \<Longrightarrow> c = d \<Longrightarrow> sqrt ((a - b) * (a - b) + (c - d) * (c - d)) < TILE_SIZE * (8 / 10)"
  by (simp add: TILE_SIZE_def)


lemma typed_cong:
  "(\<And>t. getComponent (entities w') x t = getComponent (entities w) x t) \<Longrightarrow>
     getPosition w' x = getPosition w x \<and> getGhostAI w' x = getGhostAI w x"
  by (simp add: getPosition_def getGhostAI_def)




section \<open>Power-pellet pickup through the whole pipeline\<close>













lemma sqrt_less_10: "sqrt a < 10 \<longleftrightarrow> a < 100"
proof -
  have "sqrt 100 = 10"
    by (rule real_sqrt_unique) simp_all
  then show ?thesis
    using real_sqrt_less_iff [of a 100] by simp
qed









end
